theory Spec2Isabelle
  imports Complex_Main "HOL-Library.Word"
begin

section \<open>Image fonts: measuring and drawing text from a texture atlas\<close>

text \<open>
  A shallow embedding of the class \<open>ImageFont\<close> (\<open>src/index.ts\<close>, and the later
  revision of the same file with the colour cache that is reproduced in
  \<open>src/README.md\<close>; the two agree on everything but the colouring).

  Conventions of the embedding.
  \<^item> A JavaScript string is a list of UTF-16 code units. \<open>text.split('')\<close> and
    \<open>text[i]\<close> work on code units, \<open>for (const c of text)\<close> on code points.
  \<^item> A JavaScript number is a real: rounding of IEEE doubles is not modelled, and
    the numbers a caller passes in are finite. The one infinite value the code
    itself produces, \<open>Math.max()\<close> of no arguments, is modelled (\<open>jsnum\<close>).
  \<^item> An optional field or parameter is an \<open>option\<close>; \<open>a ?? b\<close> and \<open>a?.f\<close> are
    case distinctions on it.
  \<^item> A plain object used as a dictionary (\<open>Record<string, T>\<close>) is a map from
    strings; the \<open>Map\<close> of the colour cache is an association list in insertion
    order.
\<close>

subsection \<open>Strings\<close>

type_synonym code_unit = "16 word"
type_synonym jsstring = "code_unit list"

definition js :: "string \<Rightarrow> jsstring" where
  "js s = map of_char s"

text \<open>The property key that an \<open>undefined\<close> index is converted to.\<close>

definition undefined_key :: jsstring where
  "undefined_key = js ''undefined''"

text \<open>\<open>text.split('')\<close>: one string per code unit.\<close>

definition split_units :: "jsstring \<Rightarrow> jsstring list" where
  "split_units text = map (\<lambda>u. [u]) text"

text \<open>\<open>text[i]\<close> for an integer index: a one-unit string, or \<open>undefined\<close>.\<close>

definition char_at :: "jsstring \<Rightarrow> int \<Rightarrow> jsstring option" where
  "char_at text i =
     (if 0 \<le> i \<and> i < int (length text) then Some [text ! nat i] else None)"

text \<open>An object indexed by \<open>text[i]\<close>: \<open>undefined\<close> becomes the key "undefined".\<close>

definition property_key :: "jsstring option \<Rightarrow> jsstring" where
  "property_key k = (case k of None \<Rightarrow> undefined_key | Some s \<Rightarrow> s)"

text \<open>\<open>array.slice(0, e)\<close>, with the negative end counted from the back.\<close>

definition slice0 :: "'a list \<Rightarrow> int \<Rightarrow> 'a list" where
  "slice0 xs e =
     (let n = int (length xs);
          k = (if e < 0 then max (n + e) 0 else min e n)
      in take (nat k) xs)"

text \<open>The string iterator of \<open>for ... of\<close>: a high surrogate followed by a low
  surrogate is one character, every other code unit is a character by itself.\<close>

definition is_high_surrogate :: "code_unit \<Rightarrow> bool" where
  "is_high_surrogate u = (0xD800 \<le> u \<and> u \<le> 0xDBFF)"

definition is_low_surrogate :: "code_unit \<Rightarrow> bool" where
  "is_low_surrogate u = (0xDC00 \<le> u \<and> u \<le> 0xDFFF)"

fun code_points :: "jsstring \<Rightarrow> jsstring list" where
  "code_points [] = []"
| "code_points [u] = [u] # []"
| "code_points (u # v # us) =
     (if is_high_surrogate u \<and> is_low_surrogate v
      then [u, v] # code_points us
      else [u] # code_points (v # us))"

subsection \<open>Numbers that can be infinite\<close>

datatype jsnum = Num real | PosInfinity | NegInfinity

text \<open>\<open>Math.max(...values)\<close>: \<open>-Infinity\<close> when there is no argument.\<close>

fun js_max :: "jsnum \<Rightarrow> real \<Rightarrow> jsnum" where
  "js_max (Num a) b = Num (max a b)"
| "js_max PosInfinity b = PosInfinity"
| "js_max NegInfinity b = Num b"

definition Math_max :: "real list \<Rightarrow> jsnum" where
  "Math_max values = foldl js_max NegInfinity values"

text \<open>\<open>h / 2\<close>, \<open>y - h\<close> for a finite \<open>y\<close>, and \<open>a - d\<close> for a finite \<open>d\<close>.\<close>

fun js_half :: "jsnum \<Rightarrow> jsnum" where
  "js_half (Num a) = Num (a / 2)"
| "js_half PosInfinity = PosInfinity"
| "js_half NegInfinity = NegInfinity"

fun js_minus :: "real \<Rightarrow> jsnum \<Rightarrow> jsnum" where
  "js_minus y (Num a) = Num (y - a)"
| "js_minus y PosInfinity = NegInfinity"
| "js_minus y NegInfinity = PosInfinity"

fun js_minus_real :: "jsnum \<Rightarrow> real \<Rightarrow> jsnum" where
  "js_minus_real (Num a) d = Num (a - d)"
| "js_minus_real PosInfinity d = PosInfinity"
| "js_minus_real NegInfinity d = NegInfinity"

subsection \<open>Types of the configuration\<close>

record vec2 =
  vec_x :: real
  vec_y :: real

text \<open>\<open>vec2()\<close> and \<open>vec2.add\<close> of the vector library.\<close>

definition vec2_zero :: vec2 where
  "vec2_zero = \<lparr>vec_x = 0, vec_y = 0\<rparr>"

definition vec2_add :: "vec2 \<Rightarrow> vec2 \<Rightarrow> vec2" where
  "vec2_add a b = \<lparr>vec_x = vec_x a + vec_x b, vec_y = vec_y a + vec_y b\<rparr>"

text \<open>The vector returned by \<open>measureText\<close>; its second component is the result
  of \<open>Math.max\<close>.\<close>

record text_size =
  size_x :: real
  size_y :: jsnum

record ImageFontCharacterConfig =
  char_offset :: "vec2 option"
  char_width :: "real option"
  char_height :: "real option"

record ImageFontConfig =
  cfg_offset :: "vec2 option"
  cfg_scale :: "real option"
  defaultCharacterConfig :: "ImageFontCharacterConfig option"
  characters :: "jsstring \<rightharpoonup> ImageFontCharacterConfig"

datatype Align = AlignLeft | AlignCenter | AlignRight
datatype BaseLine = BaseTop | BaseMiddle | BaseBottom
datatype ColoringMode = Multiply | Overlay | Hue | Custom

text \<open>A coloring function is a callback; only its identity is modelled.\<close>

type_synonym coloring_function = nat

record ImageFontRenderingOptions =
  opt_scale :: "real option"
  monospace :: "bool option"
  kerning :: "real option"
  align :: "Align option"
  baseLine :: "BaseLine option"
  color :: "jsstring option"
  coloringMode :: "ColoringMode option"
  coloringFunction :: "coloring_function option"

text \<open>An \<open>HTMLCanvasElement\<close>: its pixel size, and a symbolic description of its
  content (an atlas tile, or a tile recoloured by \<open>createColoredTexture\<close>).\<close>

datatype pixels =
    Tile nat
  | Colored pixels jsstring ColoringMode "coloring_function option"

record texture =
  tex_width :: nat
  tex_height :: nat
  tex_content :: pixels

type_synonym TextureAtlasMap = "jsstring \<rightharpoonup> texture"

record ImageFont =
  textures :: TextureAtlasMap
  config :: ImageFontConfig
  colorCache :: "(jsstring \<times> texture) list"

subsection \<open>Construction\<close>

text \<open>The static \<open>DEFAULT_CONFIG\<close> and the constructor, which merges the
  configuration of the caller over it and starts with an empty colour cache.\<close>

definition DEFAULT_CONFIG :: ImageFontConfig where
  "DEFAULT_CONFIG =
     \<lparr>cfg_offset = Some vec2_zero,
      cfg_scale = Some 1,
      defaultCharacterConfig =
        Some \<lparr>char_offset = Some vec2_zero, char_width = None, char_height = None\<rparr>,
      characters = Map.empty\<rparr>"

text \<open>Object spread \<open>{...a, ...b}\<close> on one optional field: the field of \<open>b\<close> when
  \<open>b\<close> has it. (A field that \<open>b\<close> has with the value \<open>undefined\<close> would make the
  merged field \<open>undefined\<close>; every field that is merged here is read with \<open>??\<close> and
  the same default again, so the two cases are not told apart.)\<close>

definition spread :: "'a option \<Rightarrow> 'a option \<Rightarrow> 'a option" where
  "spread a b = (case b of None \<Rightarrow> a | Some v \<Rightarrow> Some v)"

definition spread_character_config ::
  "ImageFontCharacterConfig option \<Rightarrow> ImageFontCharacterConfig option \<Rightarrow> ImageFontCharacterConfig"
where
  "spread_character_config a b =
     \<lparr>char_offset = spread (Option.bind a char_offset) (Option.bind b char_offset),
      char_width = spread (Option.bind a char_width) (Option.bind b char_width),
      char_height = spread (Option.bind a char_height) (Option.bind b char_height)\<rparr>"

definition new_ImageFont :: "TextureAtlasMap \<Rightarrow> ImageFontConfig \<Rightarrow> ImageFont" where
  "new_ImageFont texs cfg =
     \<lparr>textures = texs,
      config =
        \<lparr>cfg_offset = spread (cfg_offset DEFAULT_CONFIG) (cfg_offset cfg),
         cfg_scale = spread (cfg_scale DEFAULT_CONFIG) (cfg_scale cfg),
         defaultCharacterConfig =
           Some (spread_character_config
                   (defaultCharacterConfig DEFAULT_CONFIG) (defaultCharacterConfig cfg)),
         characters = characters DEFAULT_CONFIG ++ characters cfg\<rparr>,
      colorCache = []\<rparr>"

subsection \<open>Measuring\<close>

text \<open>\<open>(options?.scale ?? 1) * (this.config.scale ?? 1)\<close>\<close>

definition actualScale :: "ImageFont \<Rightarrow> ImageFontRenderingOptions option \<Rightarrow> real" where
  "actualScale font options =
     (case Option.bind options opt_scale of None \<Rightarrow> 1 | Some s \<Rightarrow> s) *
     (case cfg_scale (config font) of None \<Rightarrow> 1 | Some s \<Rightarrow> s)"

text \<open>\<open>a ?? b ?? c ?? 0\<close>: the first value that is present.\<close>

fun first_defined :: "real option list \<Rightarrow> real" where
  "first_defined [] = 0"
| "first_defined (None # rest) = first_defined rest"
| "first_defined (Some v # rest) = v"

text \<open>The private methods \<open>measureCharacterWidth\<close> and \<open>measureCharacterHeight\<close>.
  \<open>if (options?.monospace)\<close> holds for the value \<open>true\<close> only, and
  \<open>options?.kerning !== undefined\<close> for a kerning that is present.\<close>

definition measureCharacterWidth ::
  "ImageFont \<Rightarrow> jsstring \<Rightarrow> ImageFontRenderingOptions option \<Rightarrow> real"
where
  "measureCharacterWidth font character options =
     (let characterConfig = characters (config font) character;
          tex = textures font character;
          w = (if Option.bind options monospace = Some True
               then (case Option.bind options kerning of
                       Some k \<Rightarrow> k
                     | None \<Rightarrow>
                         first_defined
                           [Option.bind (defaultCharacterConfig (config font)) char_width,
                            map_option (\<lambda>t. real (tex_width t)) tex])
               else first_defined
                      [Option.bind characterConfig char_width,
                       Option.bind (defaultCharacterConfig (config font)) char_width,
                       map_option (\<lambda>t. real (tex_width t)) tex]
                    * (case Option.bind options kerning of None \<Rightarrow> 1 | Some k \<Rightarrow> k))
      in w * actualScale font options)"

definition measureCharacterHeight ::
  "ImageFont \<Rightarrow> jsstring \<Rightarrow> ImageFontRenderingOptions option \<Rightarrow> real"
where
  "measureCharacterHeight font character options =
     (let characterConfig = characters (config font) character
      in first_defined
           [Option.bind characterConfig char_height,
            Option.bind (defaultCharacterConfig (config font)) char_height]
         * actualScale font options)"

text \<open>The object literal \<open>{ scale: options?.scale }\<close>.\<close>

definition scale_only ::
  "ImageFontRenderingOptions option \<Rightarrow> ImageFontRenderingOptions option"
where
  "scale_only options =
     Some \<lparr>opt_scale = Option.bind options opt_scale, monospace = None, kerning = None,
           align = None, baseLine = None, color = None, coloringMode = None,
           coloringFunction = None\<rparr>"

text \<open>\<open>measureText\<close>: the last character is \<open>text[text.length - 1]\<close>, the others are
  \<open>text.split('').slice(0, text.length - 1)\<close>, summed by \<open>reduce\<close> from 0.\<close>

definition measureText ::
  "ImageFont \<Rightarrow> jsstring \<Rightarrow> ImageFontRenderingOptions option \<Rightarrow> text_size"
where
  "measureText font text options =
     (let lastCharacterWidth =
            measureCharacterWidth font
              (property_key (char_at text (int (length text) - 1)))
              (scale_only options);
          w = foldl (\<lambda>w character. w + measureCharacterWidth font character options) 0
                (slice0 (split_units text) (int (length text) - 1))
              + lastCharacterWidth;
          h = Math_max (map (\<lambda>character. measureCharacterHeight font character options)
                          (split_units text))
      in \<lparr>size_x = w, size_y = h\<rparr>)"

subsection \<open>The colour cache\<close>

text \<open>A \<open>Map<string, HTMLCanvasElement>\<close>, as the list of its entries in insertion
  order.\<close>

type_synonym color_cache = "(jsstring \<times> texture) list"

definition MAX_COLOR_CACHE_SIZE :: nat where
  "MAX_COLOR_CACHE_SIZE = 1000"

definition cache_has :: "color_cache \<Rightarrow> jsstring \<Rightarrow> bool" where
  "cache_has m k = (map_of m k \<noteq> None)"

definition cache_get :: "color_cache \<Rightarrow> jsstring \<Rightarrow> texture option" where
  "cache_get m k = map_of m k"

definition cache_size :: "color_cache \<Rightarrow> nat" where
  "cache_size m = length m"

text \<open>\<open>m.keys().next().value\<close>: the first key, \<open>undefined\<close> for an empty map.\<close>

definition cache_first_key :: "color_cache \<Rightarrow> jsstring option" where
  "cache_first_key m = (case m of [] \<Rightarrow> None | e # _ \<Rightarrow> Some (fst e))"

definition cache_delete :: "color_cache \<Rightarrow> jsstring \<Rightarrow> color_cache" where
  "cache_delete m k = filter (\<lambda>e. fst e \<noteq> k) m"

text \<open>\<open>m.set(k, v)\<close>: a key that is present keeps its place, a new key goes last.\<close>

definition cache_set :: "color_cache \<Rightarrow> jsstring \<Rightarrow> texture \<Rightarrow> color_cache" where
  "cache_set m k v =
     (if cache_has m k then map (\<lambda>e. if fst e = k then (k, v) else e) m
      else m @ [(k, v)])"

subsection \<open>Colouring\<close>

definition mode_name :: "ColoringMode \<Rightarrow> jsstring" where
  "mode_name m =
     (case m of Multiply \<Rightarrow> js ''multiply'' | Overlay \<Rightarrow> js ''overlay''
      | Hue \<Rightarrow> js ''hue'' | Custom \<Rightarrow> js ''custom'')"

definition getCacheKey :: "jsstring \<Rightarrow> jsstring \<Rightarrow> ColoringMode \<Rightarrow> jsstring" where
  "getCacheKey character col mode =
     character @ js '':'' @ col @ js '':'' @ mode_name mode"

definition getColoringMode :: "ImageFontRenderingOptions \<Rightarrow> ColoringMode" where
  "getColoringMode options =
     (let mode = (case coloringMode options of None \<Rightarrow> Multiply | Some m \<Rightarrow> m)
      in if mode = Custom \<and> coloringFunction options = None then Multiply else mode)"

text \<open>\<open>createColoredTexture\<close> makes a canvas of the size of the tile and
  composites the colour onto it; the compositing belongs to the drawing surface
  and is kept symbolic.\<close>

definition createColoredTexture ::
  "texture \<Rightarrow> jsstring \<Rightarrow> ColoringMode \<Rightarrow> coloring_function option \<Rightarrow> texture"
where
  "createColoredTexture tex col mode fn =
     \<lparr>tex_width = tex_width tex, tex_height = tex_height tex,
      tex_content = Colored (tex_content tex) col mode fn\<rparr>"

subsection \<open>Drawing\<close>

text \<open>One call of \<open>context.drawImage(image, dx, dy, dWidth, dHeight)\<close>.\<close>

record draw_call =
  image :: texture
  dx :: real
  dy :: jsnum
  dWidth :: real
  dHeight :: real

text \<open>What the loop of \<open>drawText\<close> changes: the font object (\<open>this\<close>), the
  cursor, and the calls made so far on the drawing context and of
  \<open>createColoredTexture\<close> (recorded by cache key).\<close>

record draw_state =
  this :: ImageFont
  currentX :: real
  drawImage_calls :: "draw_call list"
  recolor_calls :: "jsstring list"

text \<open>\<open>if (options?.color)\<close>: a string is truthy when it is not empty.\<close>

definition truthy_color :: "ImageFontRenderingOptions option \<Rightarrow> jsstring option" where
  "truthy_color options =
     (case Option.bind options color of
        None \<Rightarrow> None
      | Some c \<Rightarrow> if c = [] then None else Some c)"

text \<open>The block that chooses \<open>finalTexture\<close>, for options with a colour \<open>col\<close>: it
  returns the texture to draw, the cache afterwards and the keys recoloured.\<close>

definition colored_texture ::
  "color_cache \<Rightarrow> jsstring \<Rightarrow> texture \<Rightarrow> jsstring \<Rightarrow> ImageFontRenderingOptions
   \<Rightarrow> texture \<times> color_cache \<times> jsstring list"
where
  "colored_texture cache character tex col options =
     (let coloringMode = getColoringMode options;
          cacheKey = getCacheKey character col coloringMode
      in if cache_has cache cacheKey
         then (case cache_get cache cacheKey of
                 Some t \<Rightarrow> (t, cache, [])
               | None \<Rightarrow> (tex, cache, []))
         else
           (let finalTexture =
                  createColoredTexture tex col coloringMode (coloringFunction options);
                cache1 =
                  (if cache_size cache \<ge> MAX_COLOR_CACHE_SIZE
                   then (case cache_first_key cache of
                           Some firstKey \<Rightarrow> cache_delete cache firstKey
                         | None \<Rightarrow> cache)
                   else cache)
            in (finalTexture, cache_set cache1 cacheKey finalTexture, [cacheKey])))"

text \<open>The body of the loop \<open>for (const character of text)\<close>. Without a colour the
  tile itself is drawn, which is all that the revision without the cache does.\<close>

definition drawText_character ::
  "ImageFontRenderingOptions option \<Rightarrow> real \<Rightarrow> jsnum \<Rightarrow> draw_state \<Rightarrow> jsstring
   \<Rightarrow> draw_state"
where
  "drawText_character options aScale actualY st character =
     (let font = this st;
          characterWidth = measureCharacterWidth font character options
      in case textures font character of
           None \<Rightarrow> st\<lparr>currentX := currentX st + characterWidth\<rparr>
         | Some tex \<Rightarrow>
             (let characterConfig = characters (config font) character;
                  off = vec2_add
                          (case cfg_offset (config font) of None \<Rightarrow> vec2_zero | Some v \<Rightarrow> v)
                          (case Option.bind characterConfig char_offset of
                             Some v \<Rightarrow> v
                           | None \<Rightarrow>
                               (case Option.bind (defaultCharacterConfig (config font))
                                       char_offset of
                                  Some v \<Rightarrow> v
                                | None \<Rightarrow> vec2_zero));
                  (finalTexture, cache', made) =
                    (case (truthy_color options, options) of
                       (Some col, Some opts) \<Rightarrow>
                         colored_texture (colorCache font) character tex col opts
                     | _ \<Rightarrow> (tex, colorCache font, []))
              in \<lparr>this = font\<lparr>colorCache := cache'\<rparr>,
                  currentX = currentX st + characterWidth,
                  drawImage_calls = drawImage_calls st @
                    [\<lparr>image = finalTexture,
                      dx = currentX st - vec_x off * aScale,
                      dy = js_minus_real actualY (vec_y off * aScale),
                      dWidth = real (tex_width finalTexture) * aScale,
                      dHeight = real (tex_height finalTexture) * aScale\<rparr>],
                  recolor_calls = recolor_calls st @ made\<rparr>))"

text \<open>The start of the cursor and the vertical position, from the measured
  size.\<close>

definition drawText_originX ::
  "ImageFont \<Rightarrow> jsstring \<Rightarrow> real \<Rightarrow> ImageFontRenderingOptions option \<Rightarrow> real"
where
  "drawText_originX font text xpos options =
     (let sz = measureText font text options
      in case Option.bind options align of
           Some AlignCenter \<Rightarrow> xpos - size_x sz / 2
         | Some AlignRight \<Rightarrow> xpos - size_x sz
         | _ \<Rightarrow> xpos)"

definition drawText_actualY ::
  "ImageFont \<Rightarrow> jsstring \<Rightarrow> real \<Rightarrow> ImageFontRenderingOptions option \<Rightarrow> jsnum"
where
  "drawText_actualY font text ypos options =
     (let sz = measureText font text options
      in case Option.bind options baseLine of
           Some BaseMiddle \<Rightarrow> js_minus ypos (js_half (size_y sz))
         | Some BaseBottom \<Rightarrow> js_minus ypos (size_y sz)
         | _ \<Rightarrow> Num ypos)"

text \<open>\<open>drawText\<close>: the state after the loop over the characters of the text. The
  calls recorded are those of this invocation.\<close>

definition drawText ::
  "ImageFont \<Rightarrow> jsstring \<Rightarrow> real \<Rightarrow> real \<Rightarrow> ImageFontRenderingOptions option
   \<Rightarrow> draw_state"
where
  "drawText font text xpos ypos options =
     foldl (drawText_character options (actualScale font options)
              (drawText_actualY font text ypos options))
       \<lparr>this = font,
        currentX = drawText_originX font text xpos options,
        drawImage_calls = [],
        recolor_calls = []\<rparr>
       (code_points text)"

text \<open>A font is built once and then used for any number of calls of \<open>drawText\<close>:
  the font after a sequence of such calls, given by their arguments.\<close>

record draw_request =
  req_text :: jsstring
  req_x :: real
  req_y :: real
  req_options :: "ImageFontRenderingOptions option"

definition draw_sequence :: "ImageFont \<Rightarrow> draw_request list \<Rightarrow> ImageFont" where
  "draw_sequence font requests =
     foldl (\<lambda>f r. this (drawText f (req_text r) (req_x r) (req_y r) (req_options r)))
       font requests"

subsection \<open>Example fonts\<close>

text \<open>A font in the style of the one of the documentation: two tiles, a default
  character configuration and two characters with a width of their own. The
  character \<open>C\<close> has a configuration and no tile.\<close>

definition example_config :: ImageFontConfig where
  "example_config =
     \<lparr>cfg_offset = None,
      cfg_scale = None,
      defaultCharacterConfig =
        Some \<lparr>char_offset = Some \<lparr>vec_x = 14, vec_y = 8\<rparr>,
              char_width = Some 10, char_height = Some 48\<rparr>,
      characters =
        [js ''A'' \<mapsto> \<lparr>char_offset = None, char_width = Some 37, char_height = None\<rparr>,
         js ''C'' \<mapsto> \<lparr>char_offset = None, char_width = Some 33, char_height = Some 50\<rparr>]\<rparr>"

definition example_textures :: TextureAtlasMap where
  "example_textures =
     [js ''A'' \<mapsto> \<lparr>tex_width = 64, tex_height = 64, tex_content = Tile 0\<rparr>,
      js ''B'' \<mapsto> \<lparr>tex_width = 64, tex_height = 64, tex_content = Tile 1\<rparr>]"

definition example_font :: ImageFont where
  "example_font = new_ImageFont example_textures example_config"

text \<open>A font with tiles and no configuration at all.\<close>

definition bare_font :: ImageFont where
  "bare_font =
     new_ImageFont example_textures
       \<lparr>cfg_offset = None, cfg_scale = None, defaultCharacterConfig = None,
        characters = Map.empty\<rparr>"

definition no_options :: ImageFontRenderingOptions where
  "no_options =
     \<lparr>opt_scale = None, monospace = None, kerning = None, align = None,
      baseLine = None, color = None, coloringMode = None, coloringFunction = None\<rparr>"

text \<open>A cache at its capacity: the tile of \<open>A\<close> in the 1000 colours \<open>r\<close>, \<open>rr\<close>,
  \<open>rrr\<close>, ... in the order in which they were asked for.\<close>

definition color_number :: "nat \<Rightarrow> jsstring" where
  "color_number n = replicate (Suc n) (of_char CHR ''r'')"

definition tile_A :: texture where
  "tile_A = \<lparr>tex_width = 64, tex_height = 64, tex_content = Tile 0\<rparr>"

definition full_cache :: color_cache where
  "full_cache =
     map (\<lambda>n. (getCacheKey (js ''A'') (color_number n) Multiply,
               createColoredTexture tile_A (color_number n) Multiply None))
       [0..<1000]"

definition red_options :: ImageFontRenderingOptions where
  "red_options = no_options\<lparr>color := Some (js ''red'')\<rparr>"

section \<open>Properties\<close>

subsection \<open>Auxiliary facts\<close>

lemma slice0_all_but_last: "slice0 xs (int (length xs) - 1) = butlast xs"
proof -
  have "nat (int (length xs) - 1) = length xs - 1" by simp
  then show ?thesis
    by (cases "xs = []") (simp_all add: slice0_def Let_def butlast_conv_take)
qed

lemma split_units_butlast: "butlast (split_units s) = split_units (butlast s)"
  by (simp add: split_units_def map_butlast)

lemma length_split_units: "length (split_units s) = length s"
  by (simp add: split_units_def)

lemma slice0_split_units:
  "slice0 (split_units s) (int (length s) - 1) = split_units (butlast s)"
  using slice0_all_but_last [of "split_units s"]
  by (simp add: length_split_units split_units_butlast)

lemma foldl_add_sum_list:
  "foldl (\<lambda>w c. w + f c) a xs = (a::real) + sum_list (map f xs)"
  by (induction xs arbitrary: a) auto

lemma char_at_last:
  "s \<noteq> [] \<Longrightarrow> char_at s (int (length s) - 1) = Some [last s]"
  by (cases s rule: rev_cases) (auto simp: char_at_def nth_append)

lemma char_at_empty: "char_at [] (int (length ([]::jsstring)) - 1) = None"
  by (simp add: char_at_def)

lemma foldl_js_max_Num: "foldl js_max (Num a) xs = Num (fold max xs a)"
  by (induction xs arbitrary: a) (simp_all add: max.commute)

lemma Math_max_nonempty: "xs \<noteq> [] \<Longrightarrow> Math_max xs = Num (Max (set xs))"
  by (cases xs)
     (simp_all add: Math_max_def foldl_js_max_Num Max.set_eq_fold del: set_simps)

lemma Math_max_empty: "Math_max [] = NegInfinity"
  by (simp add: Math_max_def)

lemma measureText_width_nonempty:
  assumes "s \<noteq> []"
  shows "size_x (measureText font s options) =
         sum_list (map (\<lambda>u. measureCharacterWidth font [u] options) (butlast s))
         + measureCharacterWidth font [last s] (scale_only options)"
proof -
  have "sum_list (map (\<lambda>c. measureCharacterWidth font c options) (split_units (butlast s)))
        = sum_list (map (\<lambda>u. measureCharacterWidth font [u] options) (butlast s))"
    by (simp add: split_units_def comp_def)
  then show ?thesis
    using assms
    by (simp add: measureText_def Let_def char_at_last property_key_def
        slice0_split_units foldl_add_sum_list)
qed

lemma js_code_units [simp]:
  "js [] = []" "js (c # cs) = of_char c # js cs"
  by (simp_all add: js_def)

lemmas font_defs = example_font_def bare_font_def new_ImageFont_def example_config_def
     example_textures_def DEFAULT_CONFIG_def spread_def spread_character_config_def no_options_def

subsection \<open>The width of a text\<close>

lemma measureCharacterWidth_scale_only:
  "monospace opts \<noteq> Some True \<Longrightarrow>
   measureCharacterWidth font ch (scale_only (Some opts))
     = measureCharacterWidth font ch (Some (opts\<lparr>kerning := None\<rparr>))"
  by (simp add: measureCharacterWidth_def actualScale_def Let_def scale_only_def)

lemma measureCharacterWidth_kerning:
  "monospace opts \<noteq> Some True \<Longrightarrow> kerning opts = Some k \<Longrightarrow>
   measureCharacterWidth font ch (Some opts)
     = k * measureCharacterWidth font ch (Some (opts\<lparr>kerning := None\<rparr>))"
  by (simp add: measureCharacterWidth_def actualScale_def Let_def)

text \<open>
  Claim C1. For a text that is not empty, the width that \<open>measureText\<close> returns is
  the sum of \<open>measureCharacterWidth\<close> with the caller's options over all characters
  but the last, plus the width of the last character measured with options that
  carry the scale only (no kerning, no monospace). In particular three characters
  of proportional width 10 measured with a kerning of 2 give 10 * 2 + 10 * 2 + 10 = 50.
\<close>

theorem measureText_width:
  "(s \<noteq> [] \<longrightarrow>
     size_x (measureText font s options) =
       sum_list (map (\<lambda>u. measureCharacterWidth font [u] options) (butlast s))
       + measureCharacterWidth font [last s]
           (Some \<lparr>opt_scale = Option.bind options opt_scale, monospace = None,
                  kerning = None, align = None, baseLine = None, color = None,
                  coloringMode = None, coloringFunction = None\<rparr>))
   \<and> (monospace opts \<noteq> Some True \<and> kerning opts = Some 2 \<and>
      (\<forall>u \<in> set [a, b, c].
         measureCharacterWidth font [u] (Some (opts\<lparr>kerning := None\<rparr>)) = 10)
      \<longrightarrow> size_x (measureText font [a, b, c] (Some opts)) = 50)"
proof (intro conjI impI)
  assume "s \<noteq> []"
  then show "size_x (measureText font s options) =
       sum_list (map (\<lambda>u. measureCharacterWidth font [u] options) (butlast s))
       + measureCharacterWidth font [last s]
           (Some \<lparr>opt_scale = Option.bind options opt_scale, monospace = None,
                  kerning = None, align = None, baseLine = None, color = None,
                  coloringMode = None, coloringFunction = None\<rparr>)"
    using measureText_width_nonempty [of s font options] by (simp add: scale_only_def)
next
  assume h: "monospace opts \<noteq> Some True \<and> kerning opts = Some 2 \<and>
      (\<forall>u \<in> set [a, b, c].
         measureCharacterWidth font [u] (Some (opts\<lparr>kerning := None\<rparr>)) = 10)"
  then have w: "measureCharacterWidth font [u] (Some (opts\<lparr>kerning := None\<rparr>)) = 10"
    if "u = a \<or> u = b \<or> u = c" for u
    using that by auto
  show "size_x (measureText font [a, b, c] (Some opts)) = 50"
    using h by (simp add: measureText_width_nonempty measureCharacterWidth_kerning
        measureCharacterWidth_scale_only w)
qed

lemma example_widths:
  "measureCharacterWidth example_font (js ''B'') (Some no_options) = 10"
  "measureCharacterWidth example_font (js ''D'') (Some no_options) = 10"
  "measureCharacterWidth example_font (js ''E'') (Some no_options) = 10"
  by (simp_all add: measureCharacterWidth_def actualScale_def font_defs)

theorem measureText_width_witness:
  "js ''BDE'' \<noteq> [] \<and>
   monospace (no_options\<lparr>kerning := Some 2\<rparr>) \<noteq> Some True \<and>
   kerning (no_options\<lparr>kerning := Some 2\<rparr>) = Some 2 \<and>
   measureCharacterWidth example_font (js ''B'') (Some no_options) = 10 \<and>
   measureCharacterWidth example_font (js ''D'') (Some no_options) = 10 \<and>
   measureCharacterWidth example_font (js ''E'') (Some no_options) = 10 \<and>
   size_x (measureText example_font (js ''BDE'') (Some (no_options\<lparr>kerning := Some 2\<rparr>))) = 50 \<and>
   size_x (measureText example_font (js ''BDE'') (Some (no_options\<lparr>kerning := Some 2\<rparr>))) =
     measureCharacterWidth example_font (js ''B'') (Some (no_options\<lparr>kerning := Some 2\<rparr>)) +
     measureCharacterWidth example_font (js ''D'') (Some (no_options\<lparr>kerning := Some 2\<rparr>)) +
     measureCharacterWidth example_font (js ''E'') (Some no_options)"
proof -
  let ?o = "no_options\<lparr>kerning := Some 2\<rparr>"
  have strip: "?o\<lparr>kerning := None\<rparr> = no_options"
    by (simp add: no_options_def)
  have h1: "monospace ?o \<noteq> Some True \<and> kerning ?o = Some 2"
    by (simp add: no_options_def)
  have h2: "\<forall>u \<in> set [of_char CHR ''B'', of_char CHR ''D'', of_char CHR ''E''].
      measureCharacterWidth example_font [u] (Some (?o\<lparr>kerning := None\<rparr>)) = 10"
    using example_widths unfolding strip by simp
  have so: "Some \<lparr>opt_scale = Option.bind (Some ?o) opt_scale, monospace = None,
                  kerning = None, align = None, baseLine = None, color = None,
                  coloringMode = None, coloringFunction = None\<rparr> = Some no_options"
    by (simp add: no_options_def)
  note t = measureText_width [of "js ''BDE''" example_font "Some ?o" ?o
      "of_char CHR ''B''" "of_char CHR ''D''" "of_char CHR ''E''"]
  from t h1 h2 have c50: "size_x (measureText example_font (js ''BDE'') (Some ?o)) = 50"
    by simp
  from t have "size_x (measureText example_font (js ''BDE'') (Some ?o)) =
     measureCharacterWidth example_font (js ''B'') (Some ?o) +
     measureCharacterWidth example_font (js ''D'') (Some ?o) +
     measureCharacterWidth example_font (js ''E'') (Some no_options)"
    unfolding so by simp
  with c50 h1 example_widths show ?thesis by simp
qed

subsection \<open>The width and the height of a character\<close>

text \<open>
  Claim C2. With \<open>options.monospace\<close> true, \<open>measureCharacterWidth\<close> returns the
  kerning option when it is defined, else the default width, else the width of
  the tile, else 0, times the effective scale. The configuration of the character
  itself is not consulted: replacing the per-character table by any other leaves
  the result unchanged.
\<close>

theorem measureCharacterWidth_monospace:
  "monospace opts = Some True \<longrightarrow>
     measureCharacterWidth font ch (Some opts) =
       (case kerning opts of
          Some k \<Rightarrow> k
        | None \<Rightarrow>
            (case Option.bind (defaultCharacterConfig (config font)) char_width of
               Some w \<Rightarrow> w
             | None \<Rightarrow>
                 (case textures font ch of
                    Some t \<Rightarrow> real (tex_width t)
                  | None \<Rightarrow> 0)))
       * ((case opt_scale opts of None \<Rightarrow> 1 | Some s \<Rightarrow> s)
          * (case cfg_scale (config font) of None \<Rightarrow> 1 | Some s \<Rightarrow> s))
     \<and> measureCharacterWidth (font\<lparr>config := (config font)\<lparr>characters := table\<rparr>\<rparr>) ch (Some opts)
         = measureCharacterWidth font ch (Some opts)"
  by (auto simp: measureCharacterWidth_def actualScale_def Let_def
      split: option.splits)

theorem measureCharacterWidth_monospace_witness:
  "monospace (no_options\<lparr>monospace := Some True\<rparr>) = Some True \<and>
   Option.bind (characters (config example_font) (js ''A'')) char_width = Some 37 \<and>
   measureCharacterWidth example_font (js ''A'') (Some (no_options\<lparr>monospace := Some True\<rparr>)) = 10 \<and>
   measureCharacterWidth (example_font\<lparr>config := (config example_font)\<lparr>characters := Map.empty\<rparr>\<rparr>)
     (js ''A'') (Some (no_options\<lparr>monospace := Some True\<rparr>)) = 10"
proof -
  let ?o = "no_options\<lparr>monospace := Some True\<rparr>"
  have h: "monospace ?o = Some True" by simp
  have c: "Option.bind (characters (config example_font) (js ''A'')) char_width = Some 37"
    by (simp add: font_defs)
  have d: "kerning ?o = None" "opt_scale ?o = None"
    "Option.bind (defaultCharacterConfig (config example_font)) char_width = Some 10"
    "cfg_scale (config example_font) = Some 1"
    by (simp_all add: font_defs)
  from measureCharacterWidth_monospace [of ?o example_font "js ''A''" Map.empty] h
  have "measureCharacterWidth example_font (js ''A'') (Some ?o) = 10 \<and>
     measureCharacterWidth (example_font\<lparr>config := (config example_font)\<lparr>characters := Map.empty\<rparr>\<rparr>)
       (js ''A'') (Some ?o) = measureCharacterWidth example_font (js ''A'') (Some ?o)"
    unfolding d by simp
  with h c show ?thesis by simp
qed

text \<open>
  Claim C3. When \<open>options.monospace\<close> is not true (also when there are no options),
  \<open>measureCharacterWidth\<close> returns the width of the character's configuration, else
  the default width, else the width of the tile, else 0, times
  \<open>options.kerning ?? 1\<close> and times the effective scale
  \<open>(options.scale ?? 1) * (config.scale ?? 1)\<close>. So a character with no width in its
  configuration, no default width and no tile has width 0.
\<close>

theorem measureCharacterWidth_proportional:
  "(Option.bind options monospace \<noteq> Some True \<longrightarrow>
     measureCharacterWidth font ch options =
       (case Option.bind (characters (config font) ch) char_width of
          Some w \<Rightarrow> w
        | None \<Rightarrow>
            (case Option.bind (defaultCharacterConfig (config font)) char_width of
               Some w \<Rightarrow> w
             | None \<Rightarrow>
                 (case textures font ch of
                    Some t \<Rightarrow> real (tex_width t)
                  | None \<Rightarrow> 0)))
       * (case Option.bind options kerning of None \<Rightarrow> 1 | Some k \<Rightarrow> k)
       * ((case Option.bind options opt_scale of None \<Rightarrow> 1 | Some s \<Rightarrow> s)
          * (case cfg_scale (config font) of None \<Rightarrow> 1 | Some s \<Rightarrow> s)))
   \<and> (Option.bind options monospace \<noteq> Some True
        \<and> Option.bind (characters (config font) ch) char_width = None
        \<and> Option.bind (defaultCharacterConfig (config font)) char_width = None
        \<and> textures font ch = None
      \<longrightarrow> measureCharacterWidth font ch options = 0)"
  by (auto simp: measureCharacterWidth_def actualScale_def Let_def
      split: option.splits)

theorem measureCharacterWidth_proportional_witness:
  "Option.bind (Some (no_options\<lparr>kerning := Some 2, opt_scale := Some 3\<rparr>)) monospace \<noteq> Some True \<and>
   measureCharacterWidth example_font (js ''A'')
     (Some (no_options\<lparr>kerning := Some 2, opt_scale := Some 3\<rparr>)) = 37 * 2 * (3 * 1) \<and>
   Option.bind None monospace \<noteq> Some True \<and>
   Option.bind (characters (config bare_font) (js ''Z'')) char_width = None \<and>
   Option.bind (defaultCharacterConfig (config bare_font)) char_width = None \<and>
   textures bare_font (js ''Z'') = None \<and>
   measureCharacterWidth bare_font (js ''Z'') None = 0"
proof -
  let ?o = "no_options\<lparr>kerning := Some 2, opt_scale := Some 3\<rparr>"
  have h: "Option.bind (Some ?o) monospace \<noteq> Some True"
    by (simp add: no_options_def)
  have d: "Option.bind (characters (config example_font) (js ''A'')) char_width = Some 37"
    "Option.bind (Some ?o) kerning = Some 2" "Option.bind (Some ?o) opt_scale = Some 3"
    "cfg_scale (config example_font) = Some 1"
    by (simp_all add: font_defs)
  from measureCharacterWidth_proportional [of "Some ?o" example_font "js ''A''"] h
  have a: "measureCharacterWidth example_font (js ''A'') (Some ?o) = 37 * 2 * (3 * 1)"
    unfolding d by simp
  have z: "Option.bind None monospace \<noteq> Some True"
    "Option.bind (characters (config bare_font) (js ''Z'')) char_width = None"
    "Option.bind (defaultCharacterConfig (config bare_font)) char_width = None"
    "textures bare_font (js ''Z'') = None"
    by (simp_all add: font_defs)
  from measureCharacterWidth_proportional [of None bare_font "js ''Z''"] z
  have "measureCharacterWidth bare_font (js ''Z'') None = 0"
    by blast
  with h a z show ?thesis by blast
qed

text \<open>
  Claim C5. \<open>measureCharacterHeight\<close> returns the height of the character's
  configuration, else the default height, else 0, times the effective scale; the
  tiles play no part in it (any other atlas gives the same height). For a text
  that is not empty, the height that \<open>measureText\<close> returns is the maximum of the
  heights of its characters.
\<close>

theorem measureCharacterHeight_and_text_height:
  "measureCharacterHeight font ch options =
     (case Option.bind (characters (config font) ch) char_height of
        Some h \<Rightarrow> h
      | None \<Rightarrow>
          (case Option.bind (defaultCharacterConfig (config font)) char_height of
             Some h \<Rightarrow> h
           | None \<Rightarrow> 0))
     * ((case Option.bind options opt_scale of None \<Rightarrow> 1 | Some s \<Rightarrow> s)
        * (case cfg_scale (config font) of None \<Rightarrow> 1 | Some s \<Rightarrow> s))
   \<and> measureCharacterHeight (font\<lparr>textures := atlas\<rparr>) ch options
       = measureCharacterHeight font ch options
   \<and> (s \<noteq> [] \<longrightarrow>
        size_y (measureText font s options)
          = Num (Max ((\<lambda>u. measureCharacterHeight font [u] options) ` set s)))"
proof (intro conjI impI)
  show "measureCharacterHeight font ch options =
     (case Option.bind (characters (config font) ch) char_height of
        Some h \<Rightarrow> h
      | None \<Rightarrow>
          (case Option.bind (defaultCharacterConfig (config font)) char_height of
             Some h \<Rightarrow> h
           | None \<Rightarrow> 0))
     * ((case Option.bind options opt_scale of None \<Rightarrow> 1 | Some s \<Rightarrow> s)
        * (case cfg_scale (config font) of None \<Rightarrow> 1 | Some s \<Rightarrow> s))"
    by (simp add: measureCharacterHeight_def actualScale_def Let_def split: option.splits)
next
  show "measureCharacterHeight (font\<lparr>textures := atlas\<rparr>) ch options
       = measureCharacterHeight font ch options"
    by (simp add: measureCharacterHeight_def actualScale_def)
next
  assume "s \<noteq> []"
  then have "map (\<lambda>c. measureCharacterHeight font c options) (split_units s) \<noteq> []"
    by (simp add: split_units_def)
  then have "size_y (measureText font s options)
      = Num (Max (set (map (\<lambda>c. measureCharacterHeight font c options) (split_units s))))"
    by (simp add: measureText_def Let_def Math_max_nonempty)
  also have "set (map (\<lambda>c. measureCharacterHeight font c options) (split_units s))
      = (\<lambda>u. measureCharacterHeight font [u] options) ` set s"
    by (auto simp: split_units_def)
  finally show "size_y (measureText font s options)
          = Num (Max ((\<lambda>u. measureCharacterHeight font [u] options) ` set s))" .
qed

lemma example_heights:
  "measureCharacterHeight example_font (js ''A'') None = 48"
  "measureCharacterHeight example_font (js ''C'') None = 50"
  by (simp_all add: measureCharacterHeight_def actualScale_def font_defs)

theorem measureCharacterHeight_and_text_height_witness:
  "js ''AC'' \<noteq> [] \<and>
   measureCharacterHeight example_font (js ''A'') None = 48 \<and>
   measureCharacterHeight example_font (js ''C'') None = 50 \<and>
   size_y (measureText example_font (js ''AC'') None) = Num 50 \<and>
   textures example_font (js ''A'') =
     Some \<lparr>tex_width = 64, tex_height = 64, tex_content = Tile 0\<rparr> \<and>
   measureCharacterHeight bare_font (js ''A'') None = 0"
proof -
  have ne: "js ''AC'' \<noteq> []" by simp
  from measureCharacterHeight_and_text_height [where font = example_font and s = "js ''AC''"
      and options = None] ne
  have "size_y (measureText example_font (js ''AC'') None)
      = Num (Max ((\<lambda>u. measureCharacterHeight example_font [u] None) ` set (js ''AC'')))"
    by blast
  also have "(\<lambda>u. measureCharacterHeight example_font [u] None) ` set (js ''AC'') = {48, 50}"
    using example_heights by simp
  finally have m: "size_y (measureText example_font (js ''AC'') None) = Num 50"
    by simp
  have t: "textures example_font (js ''A'') =
     Some \<lparr>tex_width = 64, tex_height = 64, tex_content = Tile 0\<rparr>"
    by (simp add: font_defs)
  have b: "Option.bind (characters (config bare_font) (js ''A'')) char_height = None"
    "Option.bind (defaultCharacterConfig (config bare_font)) char_height = None"
    by (simp_all add: font_defs)
  from measureCharacterHeight_and_text_height [where font = bare_font and ch = "js ''A''"
      and options = None]
  have "measureCharacterHeight bare_font (js ''A'') None = 0"
    unfolding b by simp
  with ne example_heights m t show ?thesis by simp
qed

subsection \<open>Texts of one character and the empty text\<close>

text \<open>
  Claim C10. For a text of a single character the width that \<open>measureText\<close> returns
  does not depend on the kerning and monospace options: for all options (and
  without options) it is
  the proportional base width of the character (its own width, else the default
  width, else the width of the tile, else 0) times
  \<open>(options.scale ?? 1) * (config.scale ?? 1)\<close>.
\<close>

theorem measureText_single_character:
  "size_x (measureText font [u] options) =
     (case Option.bind (characters (config font) [u]) char_width of
        Some w \<Rightarrow> w
      | None \<Rightarrow>
          (case Option.bind (defaultCharacterConfig (config font)) char_width of
             Some w \<Rightarrow> w
           | None \<Rightarrow>
               (case textures font [u] of
                  Some t \<Rightarrow> real (tex_width t)
                | None \<Rightarrow> 0)))
     * ((case Option.bind options opt_scale of None \<Rightarrow> 1 | Some s \<Rightarrow> s)
        * (case cfg_scale (config font) of None \<Rightarrow> 1 | Some s \<Rightarrow> s))
   \<and> size_x (measureText font [u] (Some (opts\<lparr>kerning := k, monospace := m\<rparr>)))
       = size_x (measureText font [u] (Some opts))"
  by (simp add: measureText_width_nonempty scale_only_def measureCharacterWidth_def
      actualScale_def Let_def split: option.splits)

theorem measureText_single_character_witness:
  "size_x (measureText example_font (js ''A'')
      (Some (no_options\<lparr>opt_scale := Some 2, kerning := Some 5, monospace := Some True\<rparr>))) = 74 \<and>
   size_x (measureText example_font (js ''A'') (Some (no_options\<lparr>opt_scale := Some 2\<rparr>))) = 74"
proof -
  let ?o = "no_options\<lparr>opt_scale := Some 2\<rparr>"
  have d: "Option.bind (characters (config example_font) (js ''A'')) char_width = Some 37"
    "Option.bind (Some (?o\<lparr>kerning := Some 5, monospace := Some True\<rparr>)) opt_scale = Some 2"
    "cfg_scale (config example_font) = Some 1"
    by (simp_all add: font_defs)
  from measureText_single_character [where font = example_font and u = "of_char CHR ''A''"
      and options = "Some (?o\<lparr>kerning := Some 5, monospace := Some True\<rparr>)"
      and opts = ?o and k = "Some 5" and m = "Some True"]
  show ?thesis using d by simp
qed

text \<open>
  Claim C4 fails on the code: there is no guard for the empty text.
  \<open>text[text.length - 1]\<close> is then \<open>undefined\<close>, which is measured as the character
  with the key "undefined", and \<open>Math.max()\<close> of no heights is \<open>-Infinity\<close>. Nothing
  is thrown, but the box is not of size zero: its height is \<open>-Infinity\<close> for
  every font, and its width is the default width when the configuration has one.
  \<open>drawText\<close> of the empty text draws nothing and leaves the cursor where it
  starts, so the text that is measured as 10 wide is rendered 0 wide.
\<close>

theorem measureText_empty_string:
  "measureText font [] options =
     \<lparr>size_x = measureCharacterWidth font undefined_key (scale_only options),
      size_y = NegInfinity\<rparr>
   \<and> measureText example_font [] None = \<lparr>size_x = 10, size_y = NegInfinity\<rparr>
   \<and> drawImage_calls (drawText font [] xpos ypos None) = []
   \<and> currentX (drawText font [] xpos ypos None) = xpos"
proof -
  have dr: "drawImage_calls (drawText font [] xpos ypos None) = []
    \<and> currentX (drawText font [] xpos ypos None) = xpos"
    by (simp add: drawText_def drawText_originX_def)
  have g: "measureText font [] options =
     \<lparr>size_x = measureCharacterWidth font undefined_key (scale_only options),
      size_y = NegInfinity\<rparr>" for font options
    by (simp add: measureText_def char_at_def property_key_def slice0_def split_units_def
        Math_max_def)
  have "measureCharacterWidth example_font undefined_key (scale_only None) = 10"
    by (simp add: measureCharacterWidth_def actualScale_def scale_only_def undefined_key_def
        font_defs)
  with g dr show ?thesis by simp
qed

subsection \<open>The loop of drawText\<close>

lemma measureCharacterWidth_cong:
  "textures f = textures g \<Longrightarrow> config f = config g \<Longrightarrow>
   measureCharacterWidth f ch options = measureCharacterWidth g ch options"
  by (simp add: measureCharacterWidth_def actualScale_def Let_def split: option.splits)

lemma drawText_character_no_tile:
  "textures (this st) ch = None \<Longrightarrow>
   drawText_character options sc ay st ch
     = st\<lparr>currentX := currentX st + measureCharacterWidth (this st) ch options\<rparr>"
  by (simp add: drawText_character_def Let_def)

lemma drawText_character_frame:
  "textures (this (drawText_character options sc ay st ch)) = textures (this st)"
  "config (this (drawText_character options sc ay st ch)) = config (this st)"
  by (simp_all add: drawText_character_def Let_def split: option.splits prod.splits)

lemma drawText_character_currentX:
  "currentX (drawText_character options sc ay st ch)
     = currentX st + measureCharacterWidth (this st) ch options"
  by (simp add: drawText_character_def Let_def split: option.splits prod.splits)

lemma drawText_character_calls:
  "drawImage_calls (drawText_character options sc ay st ch)
     = drawImage_calls st @
       (if textures (this st) ch = None then []
        else [last (drawImage_calls (drawText_character options sc ay st ch))])"
  by (simp add: drawText_character_def Let_def split: option.splits prod.splits)

lemma drawText_loop_frame:
  "textures (this (foldl (drawText_character options sc ay) st chs)) = textures (this st)
   \<and> config (this (foldl (drawText_character options sc ay) st chs)) = config (this st)"
  by (induction chs arbitrary: st) (simp_all add: drawText_character_frame)

lemma drawText_loop_currentX:
  "currentX (foldl (drawText_character options sc ay) st chs)
     = currentX st + sum_list (map (\<lambda>ch. measureCharacterWidth (this st) ch options) chs)"
proof (induction chs arbitrary: st)
  case Nil
  then show ?case by simp
next
  case (Cons ch chs)
  let ?st = "drawText_character options sc ay st ch"
  have "measureCharacterWidth (this ?st) c options = measureCharacterWidth (this st) c options"
    for c
    by (rule measureCharacterWidth_cong) (simp_all add: drawText_character_frame)
  then show ?case
    by (simp add: Cons.IH drawText_character_currentX)
qed

lemma drawText_loop_calls_length:
  "length (drawImage_calls (foldl (drawText_character options sc ay) st chs))
     = length (drawImage_calls st)
       + length (filter (\<lambda>ch. textures (this st) ch \<noteq> None) chs)"
proof (induction chs arbitrary: st)
  case Nil
  then show ?case by simp
next
  case (Cons ch chs)
  let ?st = "drawText_character options sc ay st ch"
  have l: "length (drawImage_calls ?st)
      = length (drawImage_calls st) + (if textures (this st) ch = None then 0 else 1)"
    by (subst drawText_character_calls) simp
  show ?case
    by (simp add: Cons.IH drawText_character_frame l)
qed

lemma drawText_loop_calls_prefix:
  "\<exists>more. drawImage_calls (foldl (drawText_character options sc ay) st chs)
     = drawImage_calls st @ more"
proof (induction chs arbitrary: st)
  case Nil
  then show ?case by simp
next
  case (Cons ch chs)
  obtain more where
    "drawImage_calls (foldl (drawText_character options sc ay)
        (drawText_character options sc ay st ch) chs)
      = drawImage_calls (drawText_character options sc ay st ch) @ more"
    using Cons.IH by blast
  then show ?case
    by (subst (asm) drawText_character_calls) simp
qed

text \<open>
  Claim C6. In the loop of \<open>drawText\<close>, a character with no tile in the atlas,
  whether or not it has a configuration, only moves the cursor on by its width
  (measured with the caller's options): nothing is drawn, nothing else changes.
  So after \<open>drawText\<close> the cursor has advanced by the widths of all characters,
  and there is one draw call for each character that has a tile. \<open>drawText\<close> has
  no failing branch: it returns a state for every input.
\<close>

theorem drawText_missing_tile:
  "(textures (this st) ch = None \<longrightarrow>
      drawText_character options sc ay st ch
        = st\<lparr>currentX := currentX st + measureCharacterWidth (this st) ch options\<rparr>
      \<and> drawImage_calls (drawText_character options sc ay st ch) = drawImage_calls st)
   \<and> currentX (drawText font s xpos ypos options)
       = drawText_originX font s xpos options
         + sum_list (map (\<lambda>ch. measureCharacterWidth font ch options) (code_points s))
   \<and> length (drawImage_calls (drawText font s xpos ypos options))
       = length (filter (\<lambda>ch. textures font ch \<noteq> None) (code_points s))"
  by (simp add: drawText_character_no_tile drawText_def drawText_loop_currentX
      drawText_loop_calls_length)

lemma code_points_AC: "code_points (js ''AC'') = [js ''A'', js ''C'']"
  by (simp add: is_high_surrogate_def is_low_surrogate_def)

lemma example_proportional_widths:
  "measureCharacterWidth example_font (js ''A'') None = 37"
  "measureCharacterWidth example_font (js ''C'') None = 33"
  by (simp_all add: measureCharacterWidth_def actualScale_def font_defs)

theorem drawText_missing_tile_witness:
  "textures example_font (js ''C'') = None \<and>
   characters (config example_font) (js ''C'')
     = Some \<lparr>char_offset = None, char_width = Some 33, char_height = Some 50\<rparr> \<and>
   drawText_character None 1 (Num 0)
       \<lparr>this = example_font, currentX = 5, drawImage_calls = [], recolor_calls = []\<rparr> (js ''C'')
     = \<lparr>this = example_font, currentX = 38, drawImage_calls = [], recolor_calls = []\<rparr> \<and>
   currentX (drawText example_font (js ''AC'') 0 0 None) = 70 \<and>
   length (drawImage_calls (drawText example_font (js ''AC'') 0 0 None)) = 1"
proof -
  let ?st = "\<lparr>this = example_font, currentX = 5, drawImage_calls = [], recolor_calls = []\<rparr>"
  have t: "textures example_font (js ''C'') = None" "textures example_font (js ''A'') \<noteq> None"
    by (simp_all add: font_defs)
  have c: "characters (config example_font) (js ''C'')
     = Some \<lparr>char_offset = None, char_width = Some 33, char_height = Some 50\<rparr>"
    by (simp add: font_defs)
  have o: "drawText_originX example_font (js ''AC'') 0 None = 0"
    by (simp add: drawText_originX_def)
  note th = drawText_missing_tile [where st = ?st and ch = "js ''C''" and options = None
      and sc = 1 and ay = "Num 0" and font = example_font and s = "js ''AC''" and xpos = 0
      and ypos = 0]
  from th t(1) example_proportional_widths
  have 1: "drawText_character None 1 (Num 0) ?st (js ''C'')
     = \<lparr>this = example_font, currentX = 38, drawImage_calls = [], recolor_calls = []\<rparr>"
    by simp
  from th o code_points_AC example_proportional_widths
  have 2: "currentX (drawText example_font (js ''AC'') 0 0 None) = 70"
    by simp
  from th code_points_AC t
  have 3: "length (drawImage_calls (drawText example_font (js ''AC'') 0 0 None)) = 1"
    by simp
  from t(1) c 1 2 3 show ?thesis by blast
qed

subsection \<open>Alignment\<close>

lemma drawText_first_call:
  assumes "textures (this st) ch = Some tex" and "drawImage_calls st = []"
  shows "hd (drawImage_calls (foldl (drawText_character options sc ay) st (ch # rest)))
         = hd (drawImage_calls (drawText_character options sc ay st ch))"
proof -
  obtain more where m:
    "drawImage_calls (foldl (drawText_character options sc ay)
        (drawText_character options sc ay st ch) rest)
      = drawImage_calls (drawText_character options sc ay st ch) @ more"
    using drawText_loop_calls_prefix by blast
  have "drawImage_calls (drawText_character options sc ay st ch) \<noteq> []"
    using assms by (subst drawText_character_calls) simp
  with m show ?thesis by simp
qed

lemma drawText_character_call_position:
  assumes "this st = font" and "textures font ch = Some tex" and "drawImage_calls st = []"
  shows "dx (hd (drawImage_calls (drawText_character options sc ay st ch)))
           = currentX st
             - vec_x (vec2_add
                 (case cfg_offset (config font) of None \<Rightarrow> vec2_zero | Some v \<Rightarrow> v)
                 (case Option.bind (characters (config font) ch) char_offset of
                    Some v \<Rightarrow> v
                  | None \<Rightarrow>
                      (case Option.bind (defaultCharacterConfig (config font)) char_offset of
                         Some v \<Rightarrow> v
                       | None \<Rightarrow> vec2_zero))) * sc"
    and "dy (hd (drawImage_calls (drawText_character options sc ay st ch)))
           = js_minus_real ay
              (vec_y (vec2_add
                 (case cfg_offset (config font) of None \<Rightarrow> vec2_zero | Some v \<Rightarrow> v)
                 (case Option.bind (characters (config font) ch) char_offset of
                    Some v \<Rightarrow> v
                  | None \<Rightarrow>
                      (case Option.bind (defaultCharacterConfig (config font)) char_offset of
                         Some v \<Rightarrow> v
                       | None \<Rightarrow> vec2_zero))) * sc)"
  using assms
  by (simp_all add: drawText_character_def Let_def split: prod.splits)

text \<open>
  Claim C7. The cursor of \<open>drawText\<close> starts at \<open>x\<close> for \<open>align\<close> left or absent, at
  \<open>x - width / 2\<close> for center and at \<open>x - width\<close> for right; the vertical position
  is \<open>y\<close> for \<open>baseLine\<close> top or absent, \<open>y - height / 2\<close> for middle and
  \<open>y - height\<close> for bottom, where width and height are those of
  \<open>measureText(text, options)\<close>. The first character of the text, when it has a tile,
  is drawn at that position less its offset times the effective scale.
\<close>

theorem drawText_origin:
  "drawText_originX font s xpos options =
     (case Option.bind options align of
        None \<Rightarrow> xpos
      | Some AlignLeft \<Rightarrow> xpos
      | Some AlignCenter \<Rightarrow> xpos - size_x (measureText font s options) / 2
      | Some AlignRight \<Rightarrow> xpos - size_x (measureText font s options))
   \<and> drawText_actualY font s ypos options =
     (case Option.bind options baseLine of
        None \<Rightarrow> Num ypos
      | Some BaseTop \<Rightarrow> Num ypos
      | Some BaseMiddle \<Rightarrow> js_minus ypos (js_half (size_y (measureText font s options)))
      | Some BaseBottom \<Rightarrow> js_minus ypos (size_y (measureText font s options)))
   \<and> (size_y (measureText font s options) = Num h \<longrightarrow>
        drawText_actualY font s ypos options =
          Num (case Option.bind options baseLine of
                 None \<Rightarrow> ypos
               | Some BaseTop \<Rightarrow> ypos
               | Some BaseMiddle \<Rightarrow> ypos - h / 2
               | Some BaseBottom \<Rightarrow> ypos - h))
   \<and> (code_points s = ch # rest \<and> textures font ch = Some tex \<longrightarrow>
        dx (hd (drawImage_calls (drawText font s xpos ypos options)))
          = drawText_originX font s xpos options
            - vec_x (vec2_add
                (case cfg_offset (config font) of None \<Rightarrow> vec2_zero | Some v \<Rightarrow> v)
                (case Option.bind (characters (config font) ch) char_offset of
                   Some v \<Rightarrow> v
                 | None \<Rightarrow>
                     (case Option.bind (defaultCharacterConfig (config font)) char_offset of
                        Some v \<Rightarrow> v
                      | None \<Rightarrow> vec2_zero))) * actualScale font options
        \<and> dy (hd (drawImage_calls (drawText font s xpos ypos options)))
          = js_minus_real (drawText_actualY font s ypos options)
             (vec_y (vec2_add
                (case cfg_offset (config font) of None \<Rightarrow> vec2_zero | Some v \<Rightarrow> v)
                (case Option.bind (characters (config font) ch) char_offset of
                   Some v \<Rightarrow> v
                 | None \<Rightarrow>
                     (case Option.bind (defaultCharacterConfig (config font)) char_offset of
                        Some v \<Rightarrow> v
                      | None \<Rightarrow> vec2_zero))) * actualScale font options))"
proof (intro conjI impI)
  show "drawText_originX font s xpos options =
     (case Option.bind options align of
        None \<Rightarrow> xpos
      | Some AlignLeft \<Rightarrow> xpos
      | Some AlignCenter \<Rightarrow> xpos - size_x (measureText font s options) / 2
      | Some AlignRight \<Rightarrow> xpos - size_x (measureText font s options))"
    by (simp add: drawText_originX_def Let_def split: option.splits Align.splits)
next
  show "drawText_actualY font s ypos options =
     (case Option.bind options baseLine of
        None \<Rightarrow> Num ypos
      | Some BaseTop \<Rightarrow> Num ypos
      | Some BaseMiddle \<Rightarrow> js_minus ypos (js_half (size_y (measureText font s options)))
      | Some BaseBottom \<Rightarrow> js_minus ypos (size_y (measureText font s options)))"
    by (simp add: drawText_actualY_def Let_def split: option.splits BaseLine.splits)
next
  assume "size_y (measureText font s options) = Num h"
  then show "drawText_actualY font s ypos options =
          Num (case Option.bind options baseLine of
                 None \<Rightarrow> ypos
               | Some BaseTop \<Rightarrow> ypos
               | Some BaseMiddle \<Rightarrow> ypos - h / 2
               | Some BaseBottom \<Rightarrow> ypos - h)"
    by (simp add: drawText_actualY_def Let_def split: option.splits BaseLine.splits)
next
  let ?st = "\<lparr>this = font, currentX = drawText_originX font s xpos options,
        drawImage_calls = [], recolor_calls = []\<rparr>"
  assume a: "code_points s = ch # rest \<and> textures font ch = Some tex"
  then have t: "textures (this ?st) ch = Some tex" and e: "drawImage_calls ?st = []"
    by simp_all
  have "hd (drawImage_calls (drawText font s xpos ypos options))
      = hd (drawImage_calls (drawText_character options (actualScale font options)
              (drawText_actualY font s ypos options) ?st ch))"
    using a drawText_first_call [OF t e] by (simp add: drawText_def)
  then show "dx (hd (drawImage_calls (drawText font s xpos ypos options)))
          = drawText_originX font s xpos options
            - vec_x (vec2_add
                (case cfg_offset (config font) of None \<Rightarrow> vec2_zero | Some v \<Rightarrow> v)
                (case Option.bind (characters (config font) ch) char_offset of
                   Some v \<Rightarrow> v
                 | None \<Rightarrow>
                     (case Option.bind (defaultCharacterConfig (config font)) char_offset of
                        Some v \<Rightarrow> v
                      | None \<Rightarrow> vec2_zero))) * actualScale font options"
    and "dy (hd (drawImage_calls (drawText font s xpos ypos options)))
          = js_minus_real (drawText_actualY font s ypos options)
             (vec_y (vec2_add
                (case cfg_offset (config font) of None \<Rightarrow> vec2_zero | Some v \<Rightarrow> v)
                (case Option.bind (characters (config font) ch) char_offset of
                   Some v \<Rightarrow> v
                 | None \<Rightarrow>
                     (case Option.bind (defaultCharacterConfig (config font)) char_offset of
                        Some v \<Rightarrow> v
                      | None \<Rightarrow> vec2_zero))) * actualScale font options)"
    using drawText_character_call_position [where st = ?st and font = font and ch = ch
        and tex = tex and options = options and sc = "actualScale font options"
        and ay = "drawText_actualY font s ypos options"] a
    by simp_all
qed

lemma example_measure_ABC:
  "measureText example_font (js ''ABC'')
     (Some (no_options\<lparr>kerning := Some 2, align := Some AlignRight,
                        baseLine := Some BaseMiddle\<rparr>))
   = \<lparr>size_x = 127, size_y = Num 50\<rparr>"
  by (simp add: measureText_def char_at_def property_key_def slice0_def split_units_def
      Math_max_def scale_only_def measureCharacterWidth_def measureCharacterHeight_def
      actualScale_def font_defs)

lemma code_points_ABC: "code_points (js ''ABC'') = [js ''A'', js ''B'', js ''C'']"
  by (simp add: is_high_surrogate_def is_low_surrogate_def)

theorem drawText_origin_witness:
  "size_y (measureText example_font (js ''ABC'')
     (Some (no_options\<lparr>kerning := Some 2, align := Some AlignRight,
                        baseLine := Some BaseMiddle\<rparr>))) = Num 50 \<and>
   code_points (js ''ABC'') = [js ''A'', js ''B'', js ''C''] \<and>
   textures example_font (js ''A'') = Some tile_A \<and>
   drawText_originX example_font (js ''ABC'') 100
     (Some (no_options\<lparr>kerning := Some 2, align := Some AlignRight,
                        baseLine := Some BaseMiddle\<rparr>)) = -27 \<and>
   drawText_actualY example_font (js ''ABC'') 200
     (Some (no_options\<lparr>kerning := Some 2, align := Some AlignRight,
                        baseLine := Some BaseMiddle\<rparr>)) = Num 175 \<and>
   dx (hd (drawImage_calls (drawText example_font (js ''ABC'') 100 200
     (Some (no_options\<lparr>kerning := Some 2, align := Some AlignRight,
                        baseLine := Some BaseMiddle\<rparr>))))) = -41 \<and>
   dy (hd (drawImage_calls (drawText example_font (js ''ABC'') 100 200
     (Some (no_options\<lparr>kerning := Some 2, align := Some AlignRight,
                        baseLine := Some BaseMiddle\<rparr>))))) = Num 167"
proof -
  let ?o = "no_options\<lparr>kerning := Some 2, align := Some AlignRight,
                        baseLine := Some BaseMiddle\<rparr>"
  have h: "size_y (measureText example_font (js ''ABC'') (Some ?o)) = Num 50"
    by (simp only: example_measure_ABC text_size.simps)
  have w: "size_x (measureText example_font (js ''ABC'') (Some ?o)) = 127"
    by (simp only: example_measure_ABC text_size.simps)
  have t: "textures example_font (js ''A'') = Some tile_A"
    by (simp add: font_defs tile_A_def)
  have d: "Option.bind (Some ?o) align = Some AlignRight"
    "Option.bind (Some ?o) baseLine = Some BaseMiddle"
    "cfg_offset (config example_font) = Some vec2_zero"
    "Option.bind (characters (config example_font) (js ''A'')) char_offset = None"
    "Option.bind (defaultCharacterConfig (config example_font)) char_offset
       = Some \<lparr>vec_x = 14, vec_y = 8\<rparr>"
    "actualScale example_font (Some ?o) = 1"
    by (simp_all add: font_defs actualScale_def)
  note th = drawText_origin [where font = example_font and s = "js ''ABC''" and xpos = 100
      and ypos = 200 and options = "Some ?o" and h = 50 and ch = "js ''A''"
      and rest = "[js ''B'', js ''C'']" and tex = tile_A]
  from th have ox: "drawText_originX example_font (js ''ABC'') 100 (Some ?o) = -27"
    unfolding d w by simp
  from th h have oy: "drawText_actualY example_font (js ''ABC'') 200 (Some ?o) = Num 175"
    unfolding d by simp
  from th code_points_ABC t
  have "dx (hd (drawImage_calls (drawText example_font (js ''ABC'') 100 200 (Some ?o)))) = -41
      \<and> dy (hd (drawImage_calls (drawText example_font (js ''ABC'') 100 200 (Some ?o))))
          = Num 167"
    unfolding d ox oy by (simp add: vec2_add_def vec2_zero_def)
  with h code_points_ABC t ox oy show ?thesis by blast
qed

subsection \<open>What drawText changes\<close>

lemma drawText_character_no_color:
  "truthy_color options = None \<Longrightarrow> this (drawText_character options sc ay st ch) = this st"
  by (simp add: drawText_character_def Let_def split: option.splits)

lemma drawText_loop_no_color:
  "truthy_color options = None \<Longrightarrow>
   this (foldl (drawText_character options sc ay) st chs) = this st"
  by (induction chs arbitrary: st) (simp_all add: drawText_character_no_color)

lemma draw_sequence_frame:
  "textures (draw_sequence font requests) = textures font
   \<and> config (draw_sequence font requests) = config font"
  unfolding draw_sequence_def
proof (induction requests arbitrary: font)
  case Nil
  then show ?case by simp
next
  case (Cons r requests)
  have "textures (this (drawText font (req_text r) (req_x r) (req_y r) (req_options r)))
          = textures font"
    "config (this (drawText font (req_text r) (req_x r) (req_y r) (req_options r)))
          = config font"
    using drawText_loop_frame by (simp_all add: drawText_def)
  then show ?case using Cons.IH by simp
qed

lemma measureText_cong:
  "textures f = textures g \<Longrightarrow> config f = config g \<Longrightarrow>
   measureText f s options = measureText g s options"
proof -
  assume a: "textures f = textures g" "config f = config g"
  have w: "measureCharacterWidth f = measureCharacterWidth g"
    using a by (intro ext) (rule measureCharacterWidth_cong)
  have h: "measureCharacterHeight f = measureCharacterHeight g"
    using a by (intro ext) (simp add: measureCharacterHeight_def actualScale_def)
  show ?thesis by (simp add: measureText_def w h)
qed

text \<open>
  Claim C9. The measuring functions assign to no field of the font: they are
  functions of the font, and their result depends on the atlas and the
  configuration only, not on the colour cache. \<open>drawText\<close> (and so any sequence of
  calls) leaves the atlas and the configuration as they are; the only field it
  changes is the colour cache, and without a colour in the options (absent, or
  the empty string) the font is unchanged altogether.
\<close>

theorem drawText_frame:
  "textures (this (drawText font s xpos ypos options)) = textures font
   \<and> config (this (drawText font s xpos ypos options)) = config font
   \<and> (truthy_color options = None \<longrightarrow> this (drawText font s xpos ypos options) = font)
   \<and> (colorCache (this (drawText font s xpos ypos options)) \<noteq> colorCache font \<longrightarrow>
        (\<exists>opts c. options = Some opts \<and> color opts = Some c \<and> c \<noteq> []))
   \<and> textures (draw_sequence font requests) = textures font
   \<and> config (draw_sequence font requests) = config font
   \<and> measureText (font\<lparr>colorCache := cache\<rparr>) s options = measureText font s options
   \<and> measureText (this (drawText font s xpos ypos options)) s' options'
       = measureText font s' options'"
proof -
  have fr: "textures (this (drawText font s xpos ypos options)) = textures font"
    "config (this (drawText font s xpos ypos options)) = config font"
    using drawText_loop_frame by (simp_all add: drawText_def)
  have nc: "this (drawText font s xpos ypos options) = font" if "truthy_color options = None"
    using that by (simp add: drawText_def drawText_loop_no_color)
  have col: "\<exists>opts c. options = Some opts \<and> color opts = Some c \<and> c \<noteq> []"
    if "colorCache (this (drawText font s xpos ypos options)) \<noteq> colorCache font"
  proof (rule ccontr)
    assume "\<not> (\<exists>opts c. options = Some opts \<and> color opts = Some c \<and> c \<noteq> [])"
    then have "truthy_color options = None"
      by (cases options) (auto simp: truthy_color_def split: option.splits)
    with nc that show False by simp
  qed
  have m1: "measureText (font\<lparr>colorCache := cache\<rparr>) s options = measureText font s options"
    by (rule measureText_cong) simp_all
  have m2: "measureText (this (drawText font s xpos ypos options)) s' options'
       = measureText font s' options'"
    by (rule measureText_cong) (simp_all add: fr)
  from fr nc col m1 m2 draw_sequence_frame show ?thesis by blast
qed


lemma example_draw_red:
  "colorCache (this (drawText example_font (js ''A'') 0 0 (Some red_options)))
     = [(js ''A:red:multiply'', createColoredTexture tile_A (js ''red'') Multiply None)]"
  by (simp add: drawText_def drawText_character_def colored_texture_def truthy_color_def
      getColoringMode_def getCacheKey_def mode_name_def cache_has_def cache_size_def
      cache_set_def MAX_COLOR_CACHE_SIZE_def red_options_def tile_A_def font_defs Let_def)

theorem drawText_frame_witness:
  "truthy_color None = None \<and>
   this (drawText example_font (js ''AC'') 0 0 None) = example_font \<and>
   colorCache example_font = [] \<and>
   colorCache (this (drawText example_font (js ''A'') 0 0 (Some red_options)))
     = [(js ''A:red:multiply'', createColoredTexture tile_A (js ''red'') Multiply None)] \<and>
   color red_options = Some (js ''red'') \<and>
   config (this (drawText example_font (js ''A'') 0 0 (Some red_options)))
     = config example_font \<and>
   textures (this (drawText example_font (js ''A'') 0 0 (Some red_options)))
     = textures example_font"
proof -
  have n: "truthy_color None = None"
    by (simp add: truthy_color_def)
  from drawText_frame [where font = example_font and s = "js ''AC''" and xpos = 0 and ypos = 0
      and options = None] n
  have 1: "this (drawText example_font (js ''AC'') 0 0 None) = example_font"
    by blast
  have e: "colorCache example_font = []"
    by (simp add: font_defs)
  have c: "color red_options = Some (js ''red'')"
    by (simp add: red_options_def no_options_def)
  from drawText_frame [where font = example_font and s = "js ''A''" and xpos = 0 and ypos = 0
      and options = "Some red_options"]
  have 2: "config (this (drawText example_font (js ''A'') 0 0 (Some red_options)))
     = config example_font"
    "textures (this (drawText example_font (js ''A'') 0 0 (Some red_options)))
     = textures example_font"
    by blast+
  from n 1 e example_draw_red c 2 show ?thesis by blast
qed

subsection \<open>The colour cache\<close>

lemma cache_has_iff: "cache_has m k \<longleftrightarrow> k \<in> fst ` set m"
  by (simp add: cache_has_def map_of_eq_None_iff)

lemma cache_delete_first:
  "distinct (map fst (e # m)) \<Longrightarrow> cache_delete (e # m) (fst e) = m"
proof -
  assume "distinct (map fst (e # m))"
  then have "\<forall>x \<in> set m. fst x \<noteq> fst e"
    by (metis distinct.simps(2) image_eqI list.simps(9) set_map)
  then show ?thesis
    by (simp add: cache_delete_def filter_id_conv)
qed

lemma cache_delete_first_length:
  "length (cache_delete (e # m) (fst e)) \<le> length m"
  by (simp add: cache_delete_def)

lemma cache_delete_distinct:
  "distinct (map fst m) \<Longrightarrow> distinct (map fst (cache_delete m k))"
  by (simp add: cache_delete_def distinct_map_filter)

lemma cache_delete_keys: "fst ` set (cache_delete m k) \<subseteq> fst ` set m"
  by (auto simp: cache_delete_def)

lemma cache_set_new: "\<not> cache_has m k \<Longrightarrow> cache_set m k v = m @ [(k, v)]"
  by (simp add: cache_set_def)

text \<open>The cache after the eviction step of a miss.\<close>

lemma colored_texture_hit:
  assumes "cache_has cache (getCacheKey ch col (getColoringMode opts))"
  shows "colored_texture cache ch tex col opts
         = (the (cache_get cache (getCacheKey ch col (getColoringMode opts))), cache, [])"
  using assms
  by (auto simp: colored_texture_def Let_def cache_has_def cache_get_def)

lemma colored_texture_miss:
  assumes "\<not> cache_has cache (getCacheKey ch col (getColoringMode opts))"
    and "cache_size cache < MAX_COLOR_CACHE_SIZE"
  shows "colored_texture cache ch tex col opts
         = (createColoredTexture tex col (getColoringMode opts) (coloringFunction opts),
            cache @ [(getCacheKey ch col (getColoringMode opts),
                      createColoredTexture tex col (getColoringMode opts)
                        (coloringFunction opts))],
            [getCacheKey ch col (getColoringMode opts)])"
  using assms by (simp add: colored_texture_def Let_def cache_set_new)

lemma colored_texture_miss_full:
  assumes "\<not> cache_has cache (getCacheKey ch col (getColoringMode opts))"
    and "MAX_COLOR_CACHE_SIZE \<le> cache_size cache"
    and "distinct (map fst cache)"
  shows "colored_texture cache ch tex col opts
         = (createColoredTexture tex col (getColoringMode opts) (coloringFunction opts),
            tl cache @ [(getCacheKey ch col (getColoringMode opts),
                      createColoredTexture tex col (getColoringMode opts)
                        (coloringFunction opts))],
            [getCacheKey ch col (getColoringMode opts)])"
proof -
  from assms(2) obtain e m where c: "cache = e # m"
    by (cases cache) (auto simp: cache_size_def MAX_COLOR_CACHE_SIZE_def)
  have d: "cache_delete cache (fst e) = m"
    using assms(3) c cache_delete_first by blast
  have "\<not> cache_has m (getCacheKey ch col (getColoringMode opts))"
    and "getCacheKey ch col (getColoringMode opts) \<noteq> fst e"
    using assms(1) c by (auto simp: cache_has_iff)
  then show ?thesis
    using assms(1,2) c d
    by (simp add: colored_texture_def Let_def cache_first_key_def cache_set_new)
qed

lemma colored_texture_size:
  assumes "cache_size cache \<le> MAX_COLOR_CACHE_SIZE"
  shows "cache_size (fst (snd (colored_texture cache ch tex col opts))) \<le> MAX_COLOR_CACHE_SIZE"
proof (cases "cache_has cache (getCacheKey ch col (getColoringMode opts))")
  case True
  then show ?thesis using assms by (simp add: colored_texture_hit)
next
  case miss: False
  show ?thesis
  proof (cases "cache_size cache < MAX_COLOR_CACHE_SIZE")
    case True
    then show ?thesis using miss by (simp add: colored_texture_miss cache_size_def)
  next
    case False
    then obtain e m where c: "cache = e # m"
      by (cases cache) (auto simp: cache_size_def MAX_COLOR_CACHE_SIZE_def)
    have k: "\<not> cache_has (cache_delete cache (fst e)) (getCacheKey ch col (getColoringMode opts))"
      using miss cache_delete_keys [of cache "fst e"] by (auto simp: cache_has_iff)
    have "length (cache_delete cache (fst e)) \<le> length m"
      unfolding c by (rule cache_delete_first_length)
    then show ?thesis
      using False assms miss k c
      by (simp add: colored_texture_def Let_def cache_first_key_def cache_set_new cache_size_def)
  qed
qed

lemma colored_texture_distinct:
  assumes "distinct (map fst cache)"
  shows "distinct (map fst (fst (snd (colored_texture cache ch tex col opts))))"
proof (cases "cache_has cache (getCacheKey ch col (getColoringMode opts))")
  case True
  then show ?thesis using assms by (simp add: colored_texture_hit)
next
  case miss: False
  show ?thesis
  proof (cases "cache_size cache < MAX_COLOR_CACHE_SIZE")
    case True
    then show ?thesis
      using miss assms by (auto simp: colored_texture_miss cache_has_iff)
  next
    case False
    then have full: "MAX_COLOR_CACHE_SIZE \<le> cache_size cache" by simp
    have "distinct (map fst (tl cache))"
      using assms by (cases cache) simp_all
    moreover have "getCacheKey ch col (getColoringMode opts) \<notin> fst ` set (tl cache)"
      using miss by (cases cache) (auto simp: cache_has_iff)
    ultimately show ?thesis
      by (simp add: colored_texture_miss_full [OF miss full assms])
  qed
qed

lemma drawText_character_colored:
  assumes "textures (this st) ch = Some tex" and "truthy_color (Some opts) = Some col"
  shows "this (drawText_character (Some opts) sc ay st ch)
           = (this st)\<lparr>colorCache :=
                fst (snd (colored_texture (colorCache (this st)) ch tex col opts))\<rparr>"
    and "recolor_calls (drawText_character (Some opts) sc ay st ch)
           = recolor_calls st
             @ snd (snd (colored_texture (colorCache (this st)) ch tex col opts))"
    and "image (last (drawImage_calls (drawText_character (Some opts) sc ay st ch)))
           = fst (colored_texture (colorCache (this st)) ch tex col opts)"
  using assms
  by (simp_all add: drawText_character_def Let_def split: prod.splits)

lemma drawText_character_cache_cases:
  "colorCache (this (drawText_character options sc ay st ch)) = colorCache (this st)
   \<or> (\<exists>tex col opts.
        colorCache (this (drawText_character options sc ay st ch))
          = fst (snd (colored_texture (colorCache (this st)) ch tex col opts)))"
proof (cases "textures (this st) ch")
  case None
  then show ?thesis by (simp add: drawText_character_no_tile)
next
  case (Some tex)
  show ?thesis
  proof (cases "truthy_color options")
    case None
    then show ?thesis by (simp add: drawText_character_no_color)
  next
    case (Some col)
    then obtain opts where "options = Some opts"
      by (cases options) (simp_all add: truthy_color_def)
    with Some \<open>textures (this st) ch = Some tex\<close> show ?thesis
      using drawText_character_colored(1) [of st ch tex opts col sc ay] by auto
  qed
qed

lemma drawText_character_cache_inv:
  assumes "cache_size (colorCache (this st)) \<le> MAX_COLOR_CACHE_SIZE
           \<and> distinct (map fst (colorCache (this st)))"
  shows "cache_size (colorCache (this (drawText_character options sc ay st ch)))
           \<le> MAX_COLOR_CACHE_SIZE
         \<and> distinct (map fst (colorCache (this (drawText_character options sc ay st ch))))"
  using drawText_character_cache_cases [of options sc ay st ch] assms
    colored_texture_size colored_texture_distinct
  by auto

lemma drawText_loop_cache_inv:
  assumes "cache_size (colorCache (this st)) \<le> MAX_COLOR_CACHE_SIZE
           \<and> distinct (map fst (colorCache (this st)))"
  shows "cache_size (colorCache (this (foldl (drawText_character options sc ay) st chs)))
           \<le> MAX_COLOR_CACHE_SIZE
         \<and> distinct (map fst
              (colorCache (this (foldl (drawText_character options sc ay) st chs))))"
  using assms
proof (induction chs arbitrary: st)
  case Nil
  then show ?case by simp
next
  case (Cons ch chs)
  show ?case
    using Cons.IH [OF drawText_character_cache_inv [OF Cons.prems]] by simp
qed

lemma drawText_cache_inv:
  assumes "cache_size (colorCache font) \<le> MAX_COLOR_CACHE_SIZE
           \<and> distinct (map fst (colorCache font))"
  shows "cache_size (colorCache (this (drawText font s xpos ypos options)))
           \<le> MAX_COLOR_CACHE_SIZE
         \<and> distinct (map fst (colorCache (this (drawText font s xpos ypos options))))"
  unfolding drawText_def
  by (rule drawText_loop_cache_inv) (simp add: assms)

lemma draw_sequence_cache_inv:
  assumes "cache_size (colorCache font) \<le> MAX_COLOR_CACHE_SIZE
           \<and> distinct (map fst (colorCache font))"
  shows "cache_size (colorCache (draw_sequence font requests)) \<le> MAX_COLOR_CACHE_SIZE
         \<and> distinct (map fst (colorCache (draw_sequence font requests)))"
  using assms unfolding draw_sequence_def
proof (induction requests arbitrary: font)
  case Nil
  then show ?case by simp
next
  case (Cons r requests)
  show ?case
    using Cons.IH [OF drawText_cache_inv [OF Cons.prems]] by simp
qed

lemma new_ImageFont_cache_inv:
  "cache_size (colorCache (new_ImageFont atlas cfg)) \<le> MAX_COLOR_CACHE_SIZE
   \<and> distinct (map fst (colorCache (new_ImageFont atlas cfg)))"
  by (simp add: new_ImageFont_def cache_size_def)

text \<open>Cache keys determine the character, the colour and the mode.\<close>

lemma code_points_shape:
  "ch \<in> set (code_points s) \<Longrightarrow>
   (\<exists>u. ch = [u]) \<or> (\<exists>h l. ch = [h, l] \<and> is_low_surrogate l)"
  by (induction s rule: code_points.induct) (auto split: if_splits)

lemma mode_name_no_colon: "of_char CHR '':'' \<notin> set (mode_name m)"
  by (cases m) (simp_all add: mode_name_def)

lemma mode_name_inj: "mode_name m = mode_name m' \<Longrightarrow> m = m'"
  by (cases m; cases m') (simp_all add: mode_name_def)

lemma colon_not_low_surrogate: "\<not> is_low_surrogate (of_char CHR '':'')"
  by (simp add: is_low_surrogate_def)

lemma split_at_first_separator:
  "sep \<notin> set p \<Longrightarrow> sep \<notin> set p' \<Longrightarrow> p @ sep # q = p' @ sep # q' \<Longrightarrow>
   p = p' \<and> q = q'"
proof (induction p arbitrary: p')
  case Nil
  then show ?case by (cases p') simp_all
next
  case (Cons c p)
  show ?case
  proof (cases p')
    case Nil
    with Cons.prems show ?thesis by simp
  next
    case (Cons c' r)
    with Cons.prems have "c = c'" "sep \<notin> set p" "sep \<notin> set r" "p @ sep # q = r @ sep # q'"
      by simp_all
    with Cons.IH [of r] Cons show ?thesis by simp
  qed
qed

lemma split_at_last_separator:
  assumes "a @ sep # b = a' @ sep # b'" and "sep \<notin> set b" and "sep \<notin> set b'"
  shows "a = a' \<and> b = b'"
proof -
  from assms(1) have "rev (a @ sep # b) = rev (a' @ sep # b')" by simp
  then have e: "rev b @ sep # rev a = rev b' @ sep # rev a'" by simp
  have n: "sep \<notin> set (rev b)" "sep \<notin> set (rev b')" using assms by simp_all
  have "rev b = rev b' \<and> rev a = rev a'"
    by (rule split_at_first_separator [OF n e])
  then show ?thesis by simp
qed

lemma getCacheKey_inj:
  assumes "getCacheKey ch col m = getCacheKey ch' col' m'"
    and "ch \<in> set (code_points s)" and "ch' \<in> set (code_points s')"
  shows "ch = ch' \<and> col = col' \<and> m = m'"
proof -
  let ?c = "of_char CHR '':'' :: code_unit"
  have k: "ch @ ?c # col @ ?c # mode_name m = ch' @ ?c # col' @ ?c # mode_name m'"
    using assms(1) by (simp add: getCacheKey_def)
  have same: "ch = ch'"
    using code_points_shape [OF assms(2)] code_points_shape [OF assms(3)] k
      colon_not_low_surrogate
    by auto
  with k have "col @ ?c # mode_name m = col' @ ?c # mode_name m'" by simp
  then have "col = col' \<and> mode_name m = mode_name m'"
    by (rule split_at_last_separator) (rule mode_name_no_colon)+
  with same show ?thesis by (simp add: mode_name_inj)
qed

lemma MAX_positive: "0 < MAX_COLOR_CACHE_SIZE"
  by (simp add: MAX_COLOR_CACHE_SIZE_def)

text \<open>
  Claim C8. The colour cache of a font never holds more than
  \<open>MAX_COLOR_CACHE_SIZE\<close> = 1000 entries (and no key twice), whatever calls of
  \<open>drawText\<close> are made after the construction. When the key of a character, colour
  and mode is in the cache, the cached texture is used: nothing is recoloured and
  the cache stays as it is. When it is not, the texture is recoloured once and
  put last; if the cache is at its capacity, exactly the first (oldest) entry is
  removed before. The key removed is then no longer in the cache, so asking for
  it again recolours and inserts it again. In \<open>drawText\<close> this is what happens for
  each character with a tile when the options have a colour, and the keys of
  different characters, colours or modes are different.
\<close>

theorem color_cache_fifo:
  assumes "key = getCacheKey ch col (getColoringMode opts)"
    and "v = createColoredTexture tex col (getColoringMode opts) (coloringFunction opts)"
    and "cache' = tl cache @ [(key, v)]"
  shows "MAX_COLOR_CACHE_SIZE = 1000
    \<and> cache_size (colorCache (draw_sequence (new_ImageFont atlas cfg) requests))
        \<le> MAX_COLOR_CACHE_SIZE
    \<and> distinct (map fst (colorCache (draw_sequence (new_ImageFont atlas cfg) requests)))
    \<and> (cache_has cache key \<longrightarrow>
         colored_texture cache ch tex col opts = (the (cache_get cache key), cache, []))
    \<and> (\<not> cache_has cache key \<and> cache_size cache < MAX_COLOR_CACHE_SIZE \<longrightarrow>
         colored_texture cache ch tex col opts = (v, cache @ [(key, v)], [key]))
    \<and> (\<not> cache_has cache key \<and> MAX_COLOR_CACHE_SIZE \<le> cache_size cache
        \<and> distinct (map fst cache) \<longrightarrow>
         colored_texture cache ch tex col opts = (v, cache', [key])
         \<and> cache_size cache' = cache_size cache
         \<and> \<not> cache_has cache' (fst (hd cache))
         \<and> (getCacheKey chr colr (getColoringMode optsr) = fst (hd cache) \<longrightarrow>
              colored_texture cache' chr texr colr optsr
                = (createColoredTexture texr colr (getColoringMode optsr)
                     (coloringFunction optsr),
                   tl cache' @ [(fst (hd cache),
                     createColoredTexture texr colr (getColoringMode optsr)
                       (coloringFunction optsr))],
                   [fst (hd cache)])))
    \<and> (textures (this st) ch = Some tex \<and> truthy_color (Some opts) = Some col \<longrightarrow>
         this (drawText_character (Some opts) sc ay st ch)
           = (this st)\<lparr>colorCache :=
                fst (snd (colored_texture (colorCache (this st)) ch tex col opts))\<rparr>
         \<and> recolor_calls (drawText_character (Some opts) sc ay st ch)
           = recolor_calls st
             @ snd (snd (colored_texture (colorCache (this st)) ch tex col opts))
         \<and> image (last (drawImage_calls (drawText_character (Some opts) sc ay st ch)))
           = fst (colored_texture (colorCache (this st)) ch tex col opts))
    \<and> (getCacheKey ch col m = getCacheKey cho colo mo
        \<and> ch \<in> set (code_points s) \<and> cho \<in> set (code_points so) \<longrightarrow>
         ch = cho \<and> col = colo \<and> m = mo)"
proof -
  have bound: "cache_size (colorCache (draw_sequence (new_ImageFont atlas cfg) requests))
        \<le> MAX_COLOR_CACHE_SIZE
    \<and> distinct (map fst (colorCache (draw_sequence (new_ImageFont atlas cfg) requests)))"
    by (rule draw_sequence_cache_inv) (rule new_ImageFont_cache_inv)
  have hit: "colored_texture cache ch tex col opts = (the (cache_get cache key), cache, [])"
    if "cache_has cache key"
    using that unfolding assms(1) by (rule colored_texture_hit)
  have miss: "colored_texture cache ch tex col opts = (v, cache @ [(key, v)], [key])"
    if "\<not> cache_has cache key \<and> cache_size cache < MAX_COLOR_CACHE_SIZE"
    using that unfolding assms(1,2) by (simp add: colored_texture_miss)
  have full: "colored_texture cache ch tex col opts = (v, cache', [key])
         \<and> cache_size cache' = cache_size cache
         \<and> \<not> cache_has cache' (fst (hd cache))
         \<and> (getCacheKey chr colr (getColoringMode optsr) = fst (hd cache) \<longrightarrow>
              colored_texture cache' chr texr colr optsr
                = (createColoredTexture texr colr (getColoringMode optsr)
                     (coloringFunction optsr),
                   tl cache' @ [(fst (hd cache),
                     createColoredTexture texr colr (getColoringMode optsr)
                       (coloringFunction optsr))],
                   [fst (hd cache)]))"
    if h: "\<not> cache_has cache key \<and> MAX_COLOR_CACHE_SIZE \<le> cache_size cache
        \<and> distinct (map fst cache)"
  proof -
    from h MAX_positive obtain e rest where c: "cache = e # rest"
      by (cases cache) (auto simp: cache_size_def)
    have 1: "colored_texture cache ch tex col opts = (v, cache', [key])"
      using h unfolding assms by (simp add: colored_texture_miss_full)
    have 2: "cache_size cache' = cache_size cache"
      by (simp add: assms(3) c cache_size_def)
    have ne: "key \<noteq> fst e" and nr: "key \<notin> fst ` set rest" and er: "fst e \<notin> fst ` set rest"
      using h c by (auto simp: cache_has_iff)
    have 3: "\<not> cache_has cache' (fst (hd cache))"
      using ne er by (auto simp: assms(3) c cache_has_iff)
    have d': "distinct (map fst cache')"
      using h nr by (auto simp: assms(3) c)
    have s': "MAX_COLOR_CACHE_SIZE \<le> cache_size cache'"
      using h 2 by simp
    have 4: "colored_texture cache' chr texr colr optsr
                = (createColoredTexture texr colr (getColoringMode optsr)
                     (coloringFunction optsr),
                   tl cache' @ [(fst (hd cache),
                     createColoredTexture texr colr (getColoringMode optsr)
                       (coloringFunction optsr))],
                   [fst (hd cache)])"
      if k: "getCacheKey chr colr (getColoringMode optsr) = fst (hd cache)"
      using colored_texture_miss_full [of cache' chr colr optsr texr] 3 s' d'
      unfolding k by simp
    from 1 2 3 4 show ?thesis by blast
  qed
  have link: "this (drawText_character (Some opts) sc ay st ch)
           = (this st)\<lparr>colorCache :=
                fst (snd (colored_texture (colorCache (this st)) ch tex col opts))\<rparr>
         \<and> recolor_calls (drawText_character (Some opts) sc ay st ch)
           = recolor_calls st
             @ snd (snd (colored_texture (colorCache (this st)) ch tex col opts))
         \<and> image (last (drawImage_calls (drawText_character (Some opts) sc ay st ch)))
           = fst (colored_texture (colorCache (this st)) ch tex col opts)"
    if "textures (this st) ch = Some tex \<and> truthy_color (Some opts) = Some col"
    using that drawText_character_colored [of st ch tex opts col sc ay] by blast
  have inj: "ch = cho \<and> col = colo \<and> m = mo"
    if "getCacheKey ch col m = getCacheKey cho colo mo
        \<and> ch \<in> set (code_points s) \<and> cho \<in> set (code_points so)"
    using that getCacheKey_inj [of ch col m cho colo mo s so] by blast
  have mx: "MAX_COLOR_CACHE_SIZE = 1000"
    by (simp add: MAX_COLOR_CACHE_SIZE_def)
  from mx bound hit miss full link inj show ?thesis by blast
qed

lemma getCacheKey_color_inj:
  "getCacheKey ch col m = getCacheKey ch col' m \<Longrightarrow> col = col'"
  by (simp add: getCacheKey_def)

lemma color_number_inj: "color_number n = color_number n' \<Longrightarrow> n = n'"
proof -
  assume "color_number n = color_number n'"
  then have "length (color_number n) = length (color_number n')" by simp
  then show ?thesis by (simp add: color_number_def)
qed

lemma full_cache_keys:
  "map fst full_cache
     = map (\<lambda>n. getCacheKey (js ''A'') (color_number n) Multiply) [0..<1000]"
  unfolding full_cache_def by (simp only: map_map comp_def fst_conv)

lemma full_cache_size: "cache_size full_cache = 1000"
  unfolding full_cache_def cache_size_def by (simp only: length_map length_upt)

lemma full_cache_distinct: "distinct (map fst full_cache)"
  unfolding full_cache_keys distinct_map
proof
  show "distinct [0..<1000]" by (rule distinct_upt)
  show "inj_on (\<lambda>n. getCacheKey (js ''A'') (color_number n) Multiply) (set [0..<1000])"
    by (rule inj_onI) (blast dest: getCacheKey_color_inj color_number_inj)
qed

lemma red_is_no_color_number: "color_number n \<noteq> js ''red''"
proof
  assume "color_number n = js ''red''"
  moreover have "of_char CHR ''e'' \<in> set (js ''red'')" by simp
  ultimately have "of_char CHR ''e'' \<in> set (color_number n)" by simp
  then have "(of_char CHR ''e'' :: code_unit) = of_char CHR ''r''"
    by (simp add: color_number_def)
  then show False by simp
qed

lemma full_cache_no_red: "\<not> cache_has full_cache (getCacheKey (js ''A'') (js ''red'') Multiply)"
proof
  assume "cache_has full_cache (getCacheKey (js ''A'') (js ''red'') Multiply)"
  then have "getCacheKey (js ''A'') (js ''red'') Multiply \<in> set (map fst full_cache)"
    by (simp only: cache_has_iff set_map)
  then obtain n where
    "getCacheKey (js ''A'') (color_number n) Multiply
       = getCacheKey (js ''A'') (js ''red'') Multiply"
    unfolding full_cache_keys by (auto simp only: set_map image_iff)
  then show False
    using getCacheKey_color_inj red_is_no_color_number by blast
qed

lemma full_cache_first: "fst (hd full_cache) = js ''A:r:multiply''"
proof -
  have "[0..<1000] = 0 # [Suc 0..<1000]"
    by (rule upt_conv_Cons) simp
  then have "hd full_cache
    = (getCacheKey (js ''A'') (color_number 0) Multiply,
       createColoredTexture tile_A (color_number 0) Multiply None)"
    unfolding full_cache_def by (simp only: list.map list.sel)
  then show ?thesis
    by (simp add: getCacheKey_def color_number_def mode_name_def)
qed

lemma example_modes:
  "getColoringMode red_options = Multiply"
  "coloringFunction red_options = None"
  "getColoringMode (no_options\<lparr>color := Some (js ''r'')\<rparr>) = Multiply"
  "coloringFunction (no_options\<lparr>color := Some (js ''r'')\<rparr>) = None"
  "truthy_color (Some red_options) = Some (js ''red'')"
  by (simp_all add: getColoringMode_def red_options_def no_options_def truthy_color_def)

lemma example_keys:
  "getCacheKey (js ''A'') (js ''red'') Multiply = js ''A:red:multiply''"
  "getCacheKey (js ''A'') (js ''r'') Multiply = js ''A:r:multiply''"
  by (simp_all add: getCacheKey_def mode_name_def)

theorem color_cache_fifo_witness:
  "\<not> cache_has full_cache (js ''A:red:multiply'') \<and>
   cache_size full_cache = 1000 \<and>
   distinct (map fst full_cache) \<and>
   fst (hd full_cache) = js ''A:r:multiply'' \<and>
   colored_texture full_cache (js ''A'') tile_A (js ''red'') red_options
     = (createColoredTexture tile_A (js ''red'') Multiply None,
        tl full_cache @
          [(js ''A:red:multiply'', createColoredTexture tile_A (js ''red'') Multiply None)],
        [js ''A:red:multiply'']) \<and>
   \<not> cache_has
       (tl full_cache @
          [(js ''A:red:multiply'', createColoredTexture tile_A (js ''red'') Multiply None)])
       (js ''A:r:multiply'') \<and>
   colored_texture
       (tl full_cache @
          [(js ''A:red:multiply'', createColoredTexture tile_A (js ''red'') Multiply None)])
       (js ''A'') tile_A (js ''r'') (no_options\<lparr>color := Some (js ''r'')\<rparr>)
     = (createColoredTexture tile_A (js ''r'') Multiply None,
        tl (tl full_cache @
          [(js ''A:red:multiply'', createColoredTexture tile_A (js ''red'') Multiply None)])
        @ [(js ''A:r:multiply'', createColoredTexture tile_A (js ''r'') Multiply None)],
        [js ''A:r:multiply'']) \<and>
   colored_texture [] (js ''A'') tile_A (js ''red'') red_options
     = (createColoredTexture tile_A (js ''red'') Multiply None,
        [(js ''A:red:multiply'', createColoredTexture tile_A (js ''red'') Multiply None)],
        [js ''A:red:multiply'']) \<and>
   colored_texture
       [(js ''A:red:multiply'', createColoredTexture tile_A (js ''red'') Multiply None)]
       (js ''A'') tile_A (js ''red'') red_options
     = (createColoredTexture tile_A (js ''red'') Multiply None,
        [(js ''A:red:multiply'', createColoredTexture tile_A (js ''red'') Multiply None)],
        []) \<and>
   recolor_calls (drawText_character (Some red_options) 1 (Num 0)
       \<lparr>this = example_font, currentX = 0, drawImage_calls = [], recolor_calls = []\<rparr>
       (js ''A''))
     = [js ''A:red:multiply''] \<and>
   js ''A'' \<in> set (code_points (js ''A''))"
proof -
  let ?key = "js ''A:red:multiply''"
  let ?v = "createColoredTexture tile_A (js ''red'') Multiply None"
  let ?r = "no_options\<lparr>color := Some (js ''r'')\<rparr>"
  let ?st = "\<lparr>this = example_font, currentX = 0, drawImage_calls = [], recolor_calls = []\<rparr>"
  have k: "?key = getCacheKey (js ''A'') (js ''red'') (getColoringMode red_options)"
    and v: "?v = createColoredTexture tile_A (js ''red'') (getColoringMode red_options)
                  (coloringFunction red_options)"
    unfolding example_modes example_keys by (rule refl)+
  have nh: "\<not> cache_has full_cache ?key"
    using full_cache_no_red unfolding example_keys .
  have sz: "MAX_COLOR_CACHE_SIZE \<le> cache_size full_cache"
    by (simp add: full_cache_size MAX_COLOR_CACHE_SIZE_def)
  have k2: "getCacheKey (js ''A'') (js ''r'') (getColoringMode ?r) = fst (hd full_cache)"
    unfolding example_modes example_keys full_cache_first by (rule refl)
  note full = color_cache_fifo [where cache = full_cache and cache' = "tl full_cache @ [(?key, ?v)]"
      and key = ?key and v = ?v and ch = "js ''A''" and col = "js ''red''"
      and opts = red_options and tex = tile_A and chr = "js ''A''" and colr = "js ''r''"
      and optsr = ?r and texr = tile_A, OF k v refl]
  from full nh sz full_cache_distinct
  have 1: "colored_texture full_cache (js ''A'') tile_A (js ''red'') red_options
     = (?v, tl full_cache @ [(?key, ?v)], [?key])"
    by blast
  from full nh sz full_cache_distinct
  have 2: "\<not> cache_has (tl full_cache @ [(?key, ?v)]) (fst (hd full_cache))"
    by blast
  from full nh sz full_cache_distinct k2
  have 3: "colored_texture (tl full_cache @ [(?key, ?v)]) (js ''A'') tile_A (js ''r'') ?r
     = (createColoredTexture tile_A (js ''r'') (getColoringMode ?r) (coloringFunction ?r),
        tl (tl full_cache @ [(?key, ?v)])
        @ [(fst (hd full_cache),
            createColoredTexture tile_A (js ''r'') (getColoringMode ?r) (coloringFunction ?r))],
        [fst (hd full_cache)])"
    by blast
  have e: "\<not> cache_has [] ?key" "cache_size [] < MAX_COLOR_CACHE_SIZE"
    by (simp_all add: cache_has_def cache_size_def MAX_COLOR_CACHE_SIZE_def)
  from color_cache_fifo [where cache = "[]" and key = ?key and v = ?v and ch = "js ''A''"
      and col = "js ''red''" and opts = red_options and tex = tile_A, OF k v refl] e
  have 4: "colored_texture [] (js ''A'') tile_A (js ''red'') red_options
     = (?v, [] @ [(?key, ?v)], [?key])"
    by blast
  have h: "cache_has [(?key, ?v)] ?key" "the (cache_get [(?key, ?v)] ?key) = ?v"
    by (simp_all add: cache_has_def cache_get_def)
  from color_cache_fifo [where cache = "[(?key, ?v)]" and key = ?key and v = ?v
      and ch = "js ''A''" and col = "js ''red''" and opts = red_options and tex = tile_A,
      OF k v refl] h(1)
  have 5: "colored_texture [(?key, ?v)] (js ''A'') tile_A (js ''red'') red_options
     = (the (cache_get [(?key, ?v)] ?key), [(?key, ?v)], [])"
    by blast
  have t: "textures (this ?st) (js ''A'') = Some tile_A" "colorCache (this ?st) = []"
    by (simp_all add: font_defs tile_A_def)
  from color_cache_fifo [where cache = "[]" and key = ?key and v = ?v and ch = "js ''A''"
      and col = "js ''red''" and opts = red_options and tex = tile_A and st = ?st
      and sc = 1 and ay = "Num 0", OF k v refl] t(1) example_modes(5)
  have "recolor_calls (drawText_character (Some red_options) 1 (Num 0) ?st (js ''A''))
     = recolor_calls ?st @ snd (snd (colored_texture (colorCache (this ?st)) (js ''A'') tile_A
          (js ''red'') red_options))"
    by blast
  then have 6: "recolor_calls (drawText_character (Some red_options) 1 (Num 0) ?st (js ''A''))
     = [?key]"
    unfolding t(2) 4 by simp
  have 7: "js ''A'' \<in> set (code_points (js ''A''))"
    by simp
  from nh full_cache_size full_cache_distinct full_cache_first 1
    2 [unfolded full_cache_first] 3 [unfolded full_cache_first example_modes]
    4 [unfolded append_Nil] 5 [unfolded h(2)] 6 7
  show ?thesis by blast
qed

end
